theory Spec2Isabelle
  imports Complex_Main
begin

text \<open>
  A model of the Nest thermostat accessory: the characteristic handlers of class
  \<open>GoogleNestThermostatHandler\<close>, which read the device through class
  \<open>GoogleNestThermostatApi\<close> (the single-flight cache with its adaptive \<open>Timeout\<close>) and
  class \<open>GoogleNestThermostatCharacteristics\<close> (the trait accessor), and, from the earlier
  class \<open>GoogleNestThermostat\<close>, its getters, \<open>commitState\<close>, \<open>fetchState\<close> with its
  plain mutex, and the variant of \<open>handleTargetTemperatureGet\<close> that compares the two
  setpoints.

  An asynchronous method is a function of the object's state and of what the call meets
  outside the object (the wait for the lock, the clock, the answers of the cloud); it
  returns its result or the error it throws, the new state and the effects on its
  collaborators. Awaits inside \<open>fetch\<close> happen with the lock held, and nothing but
  \<open>fetch\<close> writes the object's fields, so one call is one step. The lock itself is
  modelled further down, as the time until which it is held.
\<close>

section \<open>Values, errors and remote replies\<close>

text \<open>
  A HomeKit \<open>CharacteristicValue\<close> as the handlers use it: a number, a string, a boolean,
  or JavaScript's \<open>undefined\<close>. Numbers are JavaScript doubles: a number of a document or
  of a request is the real number its double stands for (a JSON document holds neither
  NaN nor an infinity). The handlers compare numbers and test them for zero, which is
  exact; the one arithmetic operation in the code, the subtraction in the earlier
  \<open>handleTargetTemperatureGet\<close>, is rounded to binary64 (section Binary64 subtraction).
\<close>

datatype jsvalue = Undefined | Num real | Str string | Bool bool

text \<open>JavaScript truthiness, as \<open>value ? a : b\<close> and \<open>!value\<close> read it.\<close>

fun truthy :: "jsvalue \<Rightarrow> bool" where
  "truthy Undefined = False"
| "truthy (Num x) = (x \<noteq> 0)"
| "truthy (Str s) = (s \<noteq> [])"
| "truthy (Bool b) = b"

definition truthy_num :: "real \<Rightarrow> bool" where
  "truthy_num x = (x \<noteq> 0)"

definition truthy_str :: "string \<Rightarrow> bool" where
  "truthy_str s = (s \<noteq> [])"

text \<open>An optional number is truthy when it is present and not zero.\<close>

definition present_num :: "real option \<Rightarrow> bool" where
  "present_num v = (case v of None \<Rightarrow> False | Some x \<Rightarrow> truthy_num x)"

definition num_or_undefined :: "real option \<Rightarrow> jsvalue" where
  "num_or_undefined v = (case v of None \<Rightarrow> Undefined | Some x \<Rightarrow> Num x)"

text \<open>
  The \<open>HapStatusError\<close> codes the code throws. \<open>TransportError\<close> stands for a rejected
  promise of the cloud client (not a HAP status), \<open>TypeError\<close> for a method call on
  \<open>null\<close>.
\<close>

datatype error =
    ResourceBusy
  | ResourceDoesNotExist
  | ServiceCommunicationFailure
  | NotAllowedInCurrentState
  | InvalidValueInRequest
  | ReadOnlyCharacteristic
  | TransportError
  | TypeError

text \<open>What an awaited call of the cloud client gives: a response with a status, or a rejection.\<close>

datatype 'a reply = Reply int 'a | Rejected

text \<open>
  The constants of homebridge's \<open>Characteristic\<close> classes (HAP):
  \<open>TargetHeatingCoolingState\<close> OFF = 0, HEAT = 1, COOL = 2, AUTO = 3;
  \<open>CurrentHeatingCoolingState\<close> OFF = 0, HEAT = 1, COOL = 2;
  \<open>TemperatureDisplayUnits\<close> CELSIUS = 0, FAHRENHEIT = 1.
\<close>

definition TargetHeatingCoolingState_OFF :: jsvalue where
  "TargetHeatingCoolingState_OFF = Num 0"

definition TargetHeatingCoolingState_HEAT :: jsvalue where
  "TargetHeatingCoolingState_HEAT = Num 1"

definition TargetHeatingCoolingState_COOL :: jsvalue where
  "TargetHeatingCoolingState_COOL = Num 2"

definition TargetHeatingCoolingState_AUTO :: jsvalue where
  "TargetHeatingCoolingState_AUTO = Num 3"

definition CurrentHeatingCoolingState_OFF :: jsvalue where
  "CurrentHeatingCoolingState_OFF = Num 0"

definition CurrentHeatingCoolingState_HEAT :: jsvalue where
  "CurrentHeatingCoolingState_HEAT = Num 1"

definition CurrentHeatingCoolingState_COOL :: jsvalue where
  "CurrentHeatingCoolingState_COOL = Num 2"

definition TemperatureDisplayUnits_CELSIUS :: jsvalue where
  "TemperatureDisplayUnits_CELSIUS = Num 0"

definition TemperatureDisplayUnits_FAHRENHEIT :: jsvalue where
  "TemperatureDisplayUnits_FAHRENHEIT = Num 1"

section \<open>The device document and its traits\<close>

text \<open>
  The remote device document, as far as the code reads it: every trait group and every
  field of a group may be missing.
\<close>

record ConnectivityTrait =
  conn_status :: "string option"

record ThermostatEcoTrait =
  eco_mode :: "string option"

record TemperatureTrait =
  ambientTemperatureCelsius :: "real option"

record ThermostatHvacTrait =
  hvac_status :: "string option"

record ThermostatModeTrait =
  mode :: "string option"
  availableModes :: "string list option"

record SettingsTrait =
  temperatureScale :: "string option"

record TemperatureSetpoint =
  heatCelsius :: "real option"
  coolCelsius :: "real option"

record HumidityTrait =
  ambientHumidityPercent :: "real option"

record DeviceTraits =
  Connectivity :: "ConnectivityTrait option"
  ThermostatEco :: "ThermostatEcoTrait option"
  Temperature :: "TemperatureTrait option"
  ThermostatHvac :: "ThermostatHvacTrait option"
  ThermostatMode :: "ThermostatModeTrait option"
  Settings :: "SettingsTrait option"
  ThermostatTemperatureSetpoint :: "TemperatureSetpoint option"
  Humidity :: "HumidityTrait option"

record Device =
  traits :: "DeviceTraits option"

text \<open>The type \<open>Traits\<close> of characteristics.ts: each field optional.\<close>

record Traits =
  connectivity :: "string option"
  ecoMode :: "string option"
  currentTemperature :: "real option"
  hvacStatus :: "string option"
  targetMode :: "string option"
  availableTargetModes :: "string list option"
  displayUnit :: "string option"
  temperatureSetpoint :: "TemperatureSetpoint option"
  relativeHumidity :: "real option"

text \<open>\<open>a?.b\<close>: \<open>undefined\<close> as soon as a step of the path is missing.\<close>

definition deviceToTraits :: "Device \<Rightarrow> Traits" where
  "deviceToTraits device =
     \<lparr> connectivity = Option.bind (Option.bind (traits device) Connectivity) conn_status,
       ecoMode = Option.bind (Option.bind (traits device) ThermostatEco) eco_mode,
       currentTemperature =
         Option.bind (Option.bind (traits device) Temperature) ambientTemperatureCelsius,
       hvacStatus = Option.bind (Option.bind (traits device) ThermostatHvac) hvac_status,
       targetMode = Option.bind (Option.bind (traits device) ThermostatMode) mode,
       availableTargetModes =
         Option.bind (Option.bind (traits device) ThermostatMode) availableModes,
       displayUnit = Option.bind (Option.bind (traits device) Settings) temperatureScale,
       temperatureSetpoint = Option.bind (traits device) ThermostatTemperatureSetpoint,
       relativeHumidity =
         Option.bind (Option.bind (traits device) Humidity) ambientHumidityPercent \<rparr>"

section \<open>The trait accessor (class GoogleNestThermostatCharacteristics)\<close>

text \<open>
  The accessor wraps a \<open>Traits\<close> value. Its error callback is the one \<open>save\<close> passes:
  it throws \<open>RESOURCE_DOES_NOT_EXIST\<close>. The private \<open>get(name)\<close> throws when
  \<open>!this.traits[name]\<close>, that is when the field is missing or holds a falsy value; the
  first argument here is the truthiness test of the field's type.
\<close>

datatype Characteristics = Characteristics (char_traits: Traits)

definition get :: "('a \<Rightarrow> bool) \<Rightarrow> 'a option \<Rightarrow> error + 'a" where
  "get is_truthy field =
     (case field of
        None \<Rightarrow> Inl ResourceDoesNotExist
      | Some x \<Rightarrow> if is_truthy x then Inr x else Inl ResourceDoesNotExist)"

definition getEcoMode :: "Characteristics \<Rightarrow> error + string" where
  "getEcoMode c = get truthy_str (ecoMode (char_traits c))"

definition getCurrentTemperature :: "Characteristics \<Rightarrow> error + real" where
  "getCurrentTemperature c = get truthy_num (currentTemperature (char_traits c))"

definition getTargetMode :: "Characteristics \<Rightarrow> error + string" where
  "getTargetMode c = get truthy_str (targetMode (char_traits c))"

definition getHvacStatus :: "Characteristics \<Rightarrow> error + string" where
  "getHvacStatus c = get truthy_str (hvacStatus (char_traits c))"

text \<open>An array and an object are truthy, also when empty.\<close>

definition getAvailableTargetModes :: "Characteristics \<Rightarrow> error + string list" where
  "getAvailableTargetModes c = get (\<lambda>_. True) (availableTargetModes (char_traits c))"

definition getDisplayUnit :: "Characteristics \<Rightarrow> error + string" where
  "getDisplayUnit c = get truthy_str (displayUnit (char_traits c))"

definition getTemperatureSetpoint :: "Characteristics \<Rightarrow> error + TemperatureSetpoint" where
  "getTemperatureSetpoint c = get (\<lambda>_. True) (temperatureSetpoint (char_traits c))"

definition getRelativeHumidity :: "Characteristics \<Rightarrow> error + real" where
  "getRelativeHumidity c = get truthy_num (relativeHumidity (char_traits c))"

section \<open>The single-flight cache (class GoogleNestThermostatApi, with class Timeout)\<close>

definition seconds :: "int \<Rightarrow> int" where
  "seconds x = x * 1000"

text \<open>
  Class \<open>Timeout\<close>: the field \<open>cache\<close> is initialised to \<open>seconds(5)\<close> and never written,
  so it is a constant here; the state of a \<open>Timeout\<close> is its \<open>value\<close>.
\<close>

definition Timeout_cache :: int where
  "Timeout_cache = seconds 5"

datatype Timeout = Timeout (timeout_value: int)

definition Timeout_new :: Timeout where
  "Timeout_new = Timeout Timeout_cache"

definition Timeout_reset :: "Timeout \<Rightarrow> Timeout" where
  "Timeout_reset t = Timeout Timeout_cache"

definition Timeout_offline :: "Timeout \<Rightarrow> Timeout" where
  "Timeout_offline t = Timeout (seconds 30)"

definition Timeout_get :: "Timeout \<Rightarrow> int" where
  "Timeout_get t = timeout_value t"

text \<open>The fields of a \<open>GoogleNestThermostatApi\<close> that change: the timeout and the cache.\<close>

record api_state =
  timeout :: Timeout
  cache_traits :: "Traits option"
  cache_characrestics :: "Characteristics option"
  cache_timestamp :: int

text \<open>A new object, constructed when \<open>Date.now()\<close> is \<open>t0\<close>.\<close>

definition api_new :: "int \<Rightarrow> api_state" where
  "api_new t0 =
     \<lparr> timeout = Timeout_new, cache_traits = None, cache_characrestics = None,
       cache_timestamp = t0 \<rparr>"

text \<open>
  What one call meets outside the object: how long the mutex makes it wait (milliseconds),
  the clock when the cached entry's age is tested and when \<open>save\<close> stamps a new entry, and
  what the cloud answers to \<open>devices.get\<close> and to \<open>devices.executeCommand\<close>.
\<close>

record env =
  lock_wait :: int
  now :: int
  get_reply :: "Device reply"
  now_saved :: int
  command_reply :: "unit reply"

text \<open>What a call does to its collaborators, in order. Logging is not modelled.\<close>

datatype effect =
    DevicesGet
  | OnDisplayUnit string
  | ExecuteCommand string "(string \<times> jsvalue) list"
  | UpdateTempRanges string

text \<open>
  \<open>withTimeout(new Mutex(), 500, RESOURCE_BUSY)\<close> of the library async-mutex: \<open>acquire\<close>
  rejects with the given error when the lock is not obtained within the bound.
\<close>

definition fetchMutex_timeout :: int where
  "fetchMutex_timeout = 500"

definition save :: "int \<Rightarrow> Traits \<Rightarrow> api_state \<Rightarrow> api_state \<times> effect list" where
  "save stamp tr s =
     (s\<lparr> cache_traits := Some tr,
         cache_characrestics := Some (Characteristics tr),
         cache_timestamp := stamp \<rparr>,
      (case displayUnit tr of
         None \<Rightarrow> []
       | Some u \<Rightarrow>
           if Option.bind (cache_traits s) displayUnit \<noteq> Some u \<and> truthy_str u
           then [OnDisplayUnit u] else []))"

definition cache_offline :: "api_state \<Rightarrow> bool" where
  "cache_offline s = (Option.bind (cache_traits s) connectivity = Some ''OFFLINE'')"

definition cache_fresh :: "env \<Rightarrow> api_state \<Rightarrow> bool" where
  "cache_fresh e s =
     (cache_traits s \<noteq> None \<and> now e - cache_timestamp s \<le> Timeout_get (timeout s))"

text \<open>The part of \<open>fetch\<close> after the \<open>try ... finally\<close> that releases the lock.\<close>

definition fetch_released ::
  "api_state \<Rightarrow> effect list \<Rightarrow> (error + Characteristics option) \<times> api_state \<times> effect list"
where
  "fetch_released s fx =
     (if cache_offline s
      then (Inl ServiceCommunicationFailure, s\<lparr> timeout := Timeout_offline (timeout s) \<rparr>, fx)
      else (Inr (cache_characrestics s), s\<lparr> timeout := Timeout_reset (timeout s) \<rparr>, fx))"

text \<open>
  \<open>fetch\<close> returns \<open>this.cache.characrestics!\<close>, which is \<open>null\<close> when the field is: the
  result carries an option. The state is the object's state when the call ends.
\<close>

definition fetch ::
  "env \<Rightarrow> api_state \<Rightarrow> (error + Characteristics option) \<times> api_state \<times> effect list"
where
  "fetch e s =
     (if fetchMutex_timeout < lock_wait e then (Inl ResourceBusy, s, [])
      else if cache_fresh e s then
        (if cache_offline s then (Inl ServiceCommunicationFailure, s, [])
         else (Inr (cache_characrestics s), s, []))
      else
        (case get_reply e of
           Rejected \<Rightarrow> (Inl TransportError, s, [DevicesGet])
         | Reply status device \<Rightarrow>
             if status = 200 then
               (case save (now_saved e) (deviceToTraits device) s of
                  (s1, fx) \<Rightarrow> fetch_released s1 (DevicesGet # fx))
             else if cache_traits s = None
               then (Inl ServiceCommunicationFailure, s, [DevicesGet])
             else fetch_released s [DevicesGet]))"

definition executeCommand ::
  "env \<Rightarrow> string \<Rightarrow> (string \<times> jsvalue) list \<Rightarrow> (error + unit) \<times> effect list"
where
  "executeCommand e command params =
     (case command_reply e of
        Rejected \<Rightarrow> (Inl TransportError, [ExecuteCommand command params])
      | Reply status u \<Rightarrow> (Inr (), [ExecuteCommand command params]))"

section \<open>The characteristic handlers (class GoogleNestThermostatHandler)\<close>

text \<open>
  Every handler that starts with \<open>const characteristics = await this.api.fetch()\<close> is the
  fetch followed by the rest of its body, which reads the accessor it got. The rest is
  the function with suffix \<open>_on\<close>; calling a method on \<open>null\<close> is a \<open>TypeError\<close>. A handler
  returns its result, the state of the api object and the effects, in order.
\<close>

definition with_fetch ::
  "env \<Rightarrow> api_state \<Rightarrow> (Characteristics \<Rightarrow> (error + 'a) \<times> effect list)
     \<Rightarrow> (error + 'a) \<times> api_state \<times> effect list"
where
  "with_fetch e s body =
     (case fetch e s of
        (Inl err, s1, fx) \<Rightarrow> (Inl err, s1, fx)
      | (Inr None, s1, fx) \<Rightarrow> (Inl TypeError, s1, fx)
      | (Inr (Some c), s1, fx) \<Rightarrow> (case body c of (r, fx1) \<Rightarrow> (r, s1, fx @ fx1)))"

definition handleCurrentHeatingCoolingStateGet_on :: "Characteristics \<Rightarrow> error + jsvalue" where
  "handleCurrentHeatingCoolingStateGet_on c =
     (case getHvacStatus c of
        Inl err \<Rightarrow> Inl err
      | Inr status \<Rightarrow>
          if status = ''HEATING'' then Inr CurrentHeatingCoolingState_HEAT
          else if status = ''COOLING'' then Inr CurrentHeatingCoolingState_COOL
          else Inr CurrentHeatingCoolingState_OFF)"

definition handleCurrentHeatingCoolingStateGet ::
  "env \<Rightarrow> api_state \<Rightarrow> (error + jsvalue) \<times> api_state \<times> effect list"
where
  "handleCurrentHeatingCoolingStateGet e s =
     with_fetch e s (\<lambda>c. (handleCurrentHeatingCoolingStateGet_on c, []))"

definition handleTargetHeatingCoolingStateGet_on :: "Characteristics \<Rightarrow> error + jsvalue" where
  "handleTargetHeatingCoolingStateGet_on c =
     (case getTargetMode c of
        Inl err \<Rightarrow> Inl err
      | Inr m \<Rightarrow>
          if m = ''HEAT'' then Inr TargetHeatingCoolingState_HEAT
          else if m = ''COOL'' then Inr TargetHeatingCoolingState_COOL
          else if m = ''HEATCOOL'' then Inr TargetHeatingCoolingState_AUTO
          else Inr CurrentHeatingCoolingState_OFF)"

definition handleTargetHeatingCoolingStateGet ::
  "env \<Rightarrow> api_state \<Rightarrow> (error + jsvalue) \<times> api_state \<times> effect list"
where
  "handleTargetHeatingCoolingStateGet e s =
     with_fetch e s (\<lambda>c. (handleTargetHeatingCoolingStateGet_on c, []))"

text \<open>The \<open>switch\<close> of \<open>valueToMode\<close> compares with \<open>===\<close>.\<close>

definition valueToMode :: "jsvalue \<Rightarrow> string" where
  "valueToMode v =
     (if v = TargetHeatingCoolingState_HEAT then ''HEAT''
      else if v = TargetHeatingCoolingState_COOL then ''COOL''
      else if v = TargetHeatingCoolingState_AUTO then ''HEATCOOL''
      else ''OFF'')"

definition handleTargetHeatingCoolingStateSet_on ::
  "jsvalue \<Rightarrow> env \<Rightarrow> Characteristics \<Rightarrow> (error + unit) \<times> effect list"
where
  "handleTargetHeatingCoolingStateSet_on v e c =
     (case getEcoMode c of
        Inl err \<Rightarrow> (Inl err, [])
      | Inr eco \<Rightarrow>
          if eco = ''MANUAL_ECO'' then (Inl NotAllowedInCurrentState, [])
          else
            (case getAvailableTargetModes c of
               Inl err \<Rightarrow> (Inl err, [])
             | Inr modes \<Rightarrow>
                 if valueToMode v \<notin> set modes then (Inl InvalidValueInRequest, [])
                 else executeCommand e ''sdm.devices.commands.ThermostatMode.SetMode''
                        [(''mode'', Str (valueToMode v))]))"

definition handleTargetHeatingCoolingStateSet ::
  "jsvalue \<Rightarrow> env \<Rightarrow> api_state \<Rightarrow> (error + unit) \<times> api_state \<times> effect list"
where
  "handleTargetHeatingCoolingStateSet v e s =
     with_fetch e s (handleTargetHeatingCoolingStateSet_on v e)"

definition handleCurrentTemperatureGet_on :: "Characteristics \<Rightarrow> error + jsvalue" where
  "handleCurrentTemperatureGet_on c = map_sum id Num (getCurrentTemperature c)"

definition handleCurrentTemperatureGet ::
  "env \<Rightarrow> api_state \<Rightarrow> (error + jsvalue) \<times> api_state \<times> effect list"
where
  "handleCurrentTemperatureGet e s = with_fetch e s (\<lambda>c. (handleCurrentTemperatureGet_on c, []))"

definition handleTargetTemperatureGet_on :: "Characteristics \<Rightarrow> error + jsvalue" where
  "handleTargetTemperatureGet_on c =
     (case getTemperatureSetpoint c of
        Inl err \<Rightarrow> Inl err
      | Inr setpoint \<Rightarrow>
          if present_num (heatCelsius setpoint) \<and> \<not> present_num (coolCelsius setpoint)
            then Inr (num_or_undefined (heatCelsius setpoint))
          else if \<not> present_num (heatCelsius setpoint) \<and> present_num (coolCelsius setpoint)
            then Inr (num_or_undefined (coolCelsius setpoint))
          else map_sum id Num (getCurrentTemperature c))"

definition handleTargetTemperatureGet ::
  "env \<Rightarrow> api_state \<Rightarrow> (error + jsvalue) \<times> api_state \<times> effect list"
where
  "handleTargetTemperatureGet e s = with_fetch e s (\<lambda>c. (handleTargetTemperatureGet_on c, []))"

text \<open>The two handlers that throw at once: no fetch, no command.\<close>

definition handleTargetTemperatureSet ::
  "jsvalue \<Rightarrow> env \<Rightarrow> api_state \<Rightarrow> (error + unit) \<times> api_state \<times> effect list"
where
  "handleTargetTemperatureSet v e s = (Inl ReadOnlyCharacteristic, s, [])"

definition handleTemperatureDisplayUnitsGet_on :: "Characteristics \<Rightarrow> error + jsvalue" where
  "handleTemperatureDisplayUnitsGet_on c =
     (case getDisplayUnit c of
        Inl err \<Rightarrow> Inl err
      | Inr unit \<Rightarrow>
          if unit = ''FAHRENHEIT'' then Inr TemperatureDisplayUnits_FAHRENHEIT
          else Inr TemperatureDisplayUnits_CELSIUS)"

definition handleTemperatureDisplayUnitsGet ::
  "env \<Rightarrow> api_state \<Rightarrow> (error + jsvalue) \<times> api_state \<times> effect list"
where
  "handleTemperatureDisplayUnitsGet e s =
     with_fetch e s (\<lambda>c. (handleTemperatureDisplayUnitsGet_on c, []))"

definition handleTemperatureDisplayUnitsSet ::
  "jsvalue \<Rightarrow> env \<Rightarrow> api_state \<Rightarrow> (error + unit) \<times> api_state \<times> effect list"
where
  "handleTemperatureDisplayUnitsSet v e s = (Inl ReadOnlyCharacteristic, s, [])"

definition handleCoolingThresholdTemperatureGet_on :: "Characteristics \<Rightarrow> error + jsvalue" where
  "handleCoolingThresholdTemperatureGet_on c =
     (case getTemperatureSetpoint c of
        Inl err \<Rightarrow> Inl err
      | Inr setpoint \<Rightarrow>
          if \<not> present_num (coolCelsius setpoint)
            then Inr (num_or_undefined (heatCelsius setpoint))
          else Inr (num_or_undefined (coolCelsius setpoint)))"

definition handleCoolingThresholdTemperatureGet ::
  "env \<Rightarrow> api_state \<Rightarrow> (error + jsvalue) \<times> api_state \<times> effect list"
where
  "handleCoolingThresholdTemperatureGet e s =
     with_fetch e s (\<lambda>c. (handleCoolingThresholdTemperatureGet_on c, []))"

definition handleCoolingThresholdTemperatureSet_on ::
  "jsvalue \<Rightarrow> env \<Rightarrow> Characteristics \<Rightarrow> (error + unit) \<times> effect list"
where
  "handleCoolingThresholdTemperatureSet_on v e c =
     (case getEcoMode c of
        Inl err \<Rightarrow> (Inl err, [])
      | Inr eco \<Rightarrow>
          if eco = ''MANUAL_ECO'' then (Inl NotAllowedInCurrentState, [])
          else
            (case getTargetMode c of
               Inl err \<Rightarrow> (Inl err, [])
             | Inr m \<Rightarrow>
                 if m \<noteq> ''COOL'' \<and> m \<noteq> ''HEATCOOL'' then (Inl NotAllowedInCurrentState, [])
                 else if m = ''COOL'' then
                   executeCommand e ''sdm.devices.commands.ThermostatTemperatureSetpoint.SetCool''
                     [(''coolCelsius'', v)]
                 else
                   (case getTemperatureSetpoint c of
                      Inl err \<Rightarrow> (Inl err, [])
                    | Inr setpoint \<Rightarrow>
                        executeCommand e
                          ''sdm.devices.commands.ThermostatTemperatureSetpoint.SetRange''
                          [(''heatCelsius'', num_or_undefined (heatCelsius setpoint)),
                           (''coolCelsius'', v)])))"

definition handleCoolingThresholdTemperatureSet ::
  "jsvalue \<Rightarrow> env \<Rightarrow> api_state \<Rightarrow> (error + unit) \<times> api_state \<times> effect list"
where
  "handleCoolingThresholdTemperatureSet v e s =
     with_fetch e s (handleCoolingThresholdTemperatureSet_on v e)"

definition handleHeatingThresholdTemperatureGet_on :: "Characteristics \<Rightarrow> error + jsvalue" where
  "handleHeatingThresholdTemperatureGet_on c =
     (case getTemperatureSetpoint c of
        Inl err \<Rightarrow> Inl err
      | Inr setpoint \<Rightarrow>
          if \<not> present_num (heatCelsius setpoint)
            then Inr (num_or_undefined (coolCelsius setpoint))
          else Inr (num_or_undefined (heatCelsius setpoint)))"

definition handleHeatingThresholdTemperatureGet ::
  "env \<Rightarrow> api_state \<Rightarrow> (error + jsvalue) \<times> api_state \<times> effect list"
where
  "handleHeatingThresholdTemperatureGet e s =
     with_fetch e s (\<lambda>c. (handleHeatingThresholdTemperatureGet_on c, []))"

definition handleHeatingThresholdTemperatureSet_on ::
  "jsvalue \<Rightarrow> env \<Rightarrow> Characteristics \<Rightarrow> (error + unit) \<times> effect list"
where
  "handleHeatingThresholdTemperatureSet_on v e c =
     (case getEcoMode c of
        Inl err \<Rightarrow> (Inl err, [])
      | Inr eco \<Rightarrow>
          if eco = ''MANUAL_ECO'' then (Inl NotAllowedInCurrentState, [])
          else
            (case getTargetMode c of
               Inl err \<Rightarrow> (Inl err, [])
             | Inr m \<Rightarrow>
                 if m \<noteq> ''HEAT'' \<and> m \<noteq> ''HEATCOOL'' then (Inl NotAllowedInCurrentState, [])
                 else if m = ''HEAT'' then
                   executeCommand e ''sdm.devices.commands.ThermostatTemperatureSetpoint.SetHeat''
                     [(''heatCelsius'', v)]
                 else
                   (case getTemperatureSetpoint c of
                      Inl err \<Rightarrow> (Inl err, [])
                    | Inr setpoint \<Rightarrow>
                        executeCommand e
                          ''sdm.devices.commands.ThermostatTemperatureSetpoint.SetRange''
                          [(''heatCelsius'', v),
                           (''coolCelsius'', num_or_undefined (coolCelsius setpoint))])))"

definition handleHeatingThresholdTemperatureSet ::
  "jsvalue \<Rightarrow> env \<Rightarrow> api_state \<Rightarrow> (error + unit) \<times> api_state \<times> effect list"
where
  "handleHeatingThresholdTemperatureSet v e s =
     with_fetch e s (handleHeatingThresholdTemperatureSet_on v e)"

definition handleEcoSwitchGet_on :: "Characteristics \<Rightarrow> error + jsvalue" where
  "handleEcoSwitchGet_on c = map_sum id (\<lambda>eco. Bool (eco = ''MANUAL_ECO'')) (getEcoMode c)"

definition handleEcoSwitchGet ::
  "env \<Rightarrow> api_state \<Rightarrow> (error + jsvalue) \<times> api_state \<times> effect list"
where
  "handleEcoSwitchGet e s = with_fetch e s (\<lambda>c. (handleEcoSwitchGet_on c, []))"

text \<open>The eco switch is written without a fetch.\<close>

definition handleEcoSwitchSet ::
  "jsvalue \<Rightarrow> env \<Rightarrow> api_state \<Rightarrow> (error + unit) \<times> api_state \<times> effect list"
where
  "handleEcoSwitchSet v e s =
     (case executeCommand e ''sdm.devices.commands.ThermostatEco.SetMode''
             [(''mode'', Str (if truthy v then ''MANUAL_ECO'' else ''OFF''))] of
        (r, fx) \<Rightarrow> (r, s, fx))"

definition handleCurrentRelativeHumidityGet_on :: "Characteristics \<Rightarrow> error + jsvalue" where
  "handleCurrentRelativeHumidityGet_on c = map_sum id Num (getRelativeHumidity c)"

definition handleCurrentRelativeHumidityGet ::
  "env \<Rightarrow> api_state \<Rightarrow> (error + jsvalue) \<times> api_state \<times> effect list"
where
  "handleCurrentRelativeHumidityGet e s =
     with_fetch e s (\<lambda>c. (handleCurrentRelativeHumidityGet_on c, []))"

definition handleNameGet ::
  "env \<Rightarrow> api_state \<Rightarrow> (error + jsvalue) \<times> api_state \<times> effect list"
where
  "handleNameGet e s = (Inr (Str ''Google Nest Thermostat''), s, [])"

text \<open>
  The handlers a get call can reach that start with a fetch (\<open>handleNameGet\<close> returns a
  constant and never fetches).
\<close>

definition get_handlers ::
  "(env \<Rightarrow> api_state \<Rightarrow> (error + jsvalue) \<times> api_state \<times> effect list) list"
where
  "get_handlers =
     [handleCurrentHeatingCoolingStateGet, handleTargetHeatingCoolingStateGet,
      handleCurrentTemperatureGet, handleTargetTemperatureGet,
      handleTemperatureDisplayUnitsGet, handleCoolingThresholdTemperatureGet,
      handleHeatingThresholdTemperatureGet, handleEcoSwitchGet,
      handleCurrentRelativeHumidityGet]"

text \<open>A sequence of get calls on one accessory, each with what it meets: the results, in order,
  and the state of the api object at the end.\<close>

fun run_gets ::
  "((env \<Rightarrow> api_state \<Rightarrow> (error + jsvalue) \<times> api_state \<times> effect list) \<times> env) list
     \<Rightarrow> api_state \<Rightarrow> (error + jsvalue) list \<times> api_state"
where
  "run_gets [] s = ([], s)"
| "run_gets (call # calls) s =
     (case (fst call) (snd call) s of
        (r, s1, fx) \<Rightarrow> (case run_gets calls s1 of (rs, s2) \<Rightarrow> (r # rs, s2)))"

text \<open>The cloud's answer to a read reports no reachable device: a status other than 200, or a
  document whose connectivity is OFFLINE.\<close>

definition unreachable_reply :: "env \<Rightarrow> bool" where
  "unreachable_reply e =
     (case get_reply e of
        Rejected \<Rightarrow> False
      | Reply status device \<Rightarrow>
          status \<noteq> 200 \<or> connectivity (deviceToTraits device) = Some ''OFFLINE'')"

text \<open>The states an api object can be in: a new object, and what a \<open>fetch\<close> leaves. The mutex
  admits one fetch at a time and nothing else writes the fields, so calls act in sequence.\<close>

inductive reachable :: "api_state \<Rightarrow> bool" where
  reachable_new: "reachable (api_new t0)"
| reachable_fetch: "reachable s \<Longrightarrow> fetch e s = (r, s1, fx) \<Longrightarrow> reachable s1"

definition is_command :: "effect \<Rightarrow> bool" where
  "is_command x = (case x of ExecuteCommand name params \<Rightarrow> True | _ \<Rightarrow> False)"

definition is_notification :: "effect \<Rightarrow> bool" where
  "is_notification x =
     (case x of OnDisplayUnit u \<Rightarrow> True | UpdateTempRanges u \<Rightarrow> True | _ \<Rightarrow> False)"

section \<open>Binary64 subtraction\<close>


text \<open>\<open>x\<close> times \<open>2\<close> to the power \<open>k\<close>.\<close>

definition scale2 :: "real \<Rightarrow> int \<Rightarrow> real" where
  "scale2 x k = (if 0 \<le> k then x * 2 ^ nat k else x / 2 ^ nat (- k))"

text \<open>
  The exponent of a positive \<open>x\<close>: the \<open>e\<close> with \<open>2 ^ e \<le> x < 2 ^ (e + 1)\<close>, searched upwards
  from 0 or downwards from -1, and kept between -1022 (below it the numbers are
  subnormal and share the spacing of exponent -1022) and 1023.
\<close>

function exponent_up :: "real \<Rightarrow> int \<Rightarrow> int" where
  "exponent_up x e = (if 1023 \<le> e \<or> x < scale2 1 (e + 1) then e else exponent_up x (e + 1))"
  by pat_completeness auto
termination
  by (relation "measure (\<lambda>(x, e). nat (1023 - e))") auto

function exponent_down :: "real \<Rightarrow> int \<Rightarrow> int" where
  "exponent_down x e = (if e \<le> - 1022 \<or> scale2 1 e \<le> x then e else exponent_down x (e - 1))"
  by pat_completeness auto
termination
  by (relation "measure (\<lambda>(x, e). nat (e + 1022))") auto

declare exponent_up.simps [simp del]

declare exponent_down.simps [simp del]

definition binary64_exponent :: "real \<Rightarrow> int" where
  "binary64_exponent x = (if 1 \<le> x then exponent_up x 0 else exponent_down x (- 1))"

text \<open>The nearest integer, a tie going to the even one.\<close>

definition round_half_even :: "real \<Rightarrow> int" where
  "round_half_even n =
     (if n - of_int \<lfloor>n\<rfloor> < 1 / 2 then \<lfloor>n\<rfloor>
      else if 1 / 2 < n - of_int \<lfloor>n\<rfloor> then \<lfloor>n\<rfloor> + 1
      else if even \<lfloor>n\<rfloor> then \<lfloor>n\<rfloor> else \<lfloor>n\<rfloor> + 1)"






section \<open>The earlier class GoogleNestThermostat\<close>

text \<open>
  The earlier variants of platformAccessory.ts keep the device document itself in
  \<open>this.state.data\<close> and read it with private getters, which throw
  \<open>RESOURCE_DOES_NOT_EXIST\<close> through \<open>throwTraitError\<close>. The getters take the value of
  \<open>this.state.data\<close> (\<open>None\<close> for \<open>null\<close>).
\<close>

record thermostat_state =
  state_data :: "Device option"
  state_timestamp :: int


definition getCurrentTemperature_state :: "Device option \<Rightarrow> error + real" where
  "getCurrentTemperature_state d =
     (case Option.bind (Option.bind (Option.bind d traits) Temperature)
             ambientTemperatureCelsius of
        None \<Rightarrow> Inl ResourceDoesNotExist
      | Some temp \<Rightarrow> if truthy_num temp then Inr temp else Inl ResourceDoesNotExist)"

definition getDisplayUnit_state :: "Device option \<Rightarrow> error + string" where
  "getDisplayUnit_state d =
     (case Option.bind (Option.bind (Option.bind d traits) Settings) temperatureScale of
        None \<Rightarrow> Inl ResourceDoesNotExist
      | Some u \<Rightarrow> if truthy_str u then Inr u else Inl ResourceDoesNotExist)"



text \<open>\<open>updateTempRanges\<close> reads the display unit of the new document (and throws when it has
  none) before it sets the ranges of the four temperature characteristics.\<close>

definition updateTempRanges :: "Device \<Rightarrow> (error + unit) \<times> effect list" where
  "updateTempRanges res =
     (case getDisplayUnit_state (Some res) of
        Inl err \<Rightarrow> (Inl err, [])
      | Inr u \<Rightarrow> (Inr (), [UpdateTempRanges u]))"

definition commitState ::
  "int \<Rightarrow> Device \<Rightarrow> thermostat_state \<Rightarrow> (error + unit) \<times> thermostat_state \<times> effect list"
where
  "commitState stamp res st =
     (if state_data st = None then
        (case updateTempRanges res of
           (Inl err, fx) \<Rightarrow> (Inl err, st, fx)
         | (Inr u, fx) \<Rightarrow> (Inr (), st\<lparr> state_data := Some res, state_timestamp := stamp \<rparr>, fx))
      else
        (case getDisplayUnit_state (state_data st) of
           Inl err \<Rightarrow> (Inl err, st, [])
         | Inr old_unit \<Rightarrow>
             (case getDisplayUnit_state (Some res) of
                Inl err \<Rightarrow> (Inl err, st, [])
              | Inr new_unit \<Rightarrow>
                  if old_unit \<noteq> new_unit then
                    (case updateTempRanges res of
                       (Inl err, fx) \<Rightarrow> (Inl err, st, fx)
                     | (Inr u, fx) \<Rightarrow>
                         (Inr (), st\<lparr> state_data := Some res, state_timestamp := stamp \<rparr>, fx))
                  else (Inr (), st\<lparr> state_data := Some res, state_timestamp := stamp \<rparr>, []))))"

text \<open>
  The fields of a \<open>GoogleNestThermostat\<close> that change: its \<open>Timeout\<close> (the same class, nominal
  5 seconds) and \<open>this.state\<close>. The constructor stamps the empty state with \<open>Date.now()\<close>.
\<close>

record thermostat =
  th_timeout :: Timeout
  th_state :: thermostat_state

definition thermostat_new :: "int \<Rightarrow> thermostat" where
  "thermostat_new t0 =
     \<lparr> th_timeout = Timeout_new, th_state = \<lparr> state_data = None, state_timestamp = t0 \<rparr> \<rparr>"

definition isOffline :: "Device option \<Rightarrow> bool" where
  "isOffline d =
     (Option.bind (Option.bind (Option.bind d traits) Connectivity) conn_status
        = Some ''OFFLINE'')"

definition state_fresh :: "env \<Rightarrow> thermostat \<Rightarrow> bool" where
  "state_fresh e th =
     (state_data (th_state th) \<noteq> None
      \<and> now e - state_timestamp (th_state th) \<le> Timeout_get (th_timeout th))"

text \<open>The part of \<open>fetchState\<close> after the \<open>try ... finally\<close> that releases the lock.\<close>

definition fetchState_released ::
  "thermostat \<Rightarrow> effect list \<Rightarrow> (error + unit) \<times> thermostat \<times> effect list"
where
  "fetchState_released th fx =
     (if isOffline (state_data (th_state th))
      then (Inl ServiceCommunicationFailure,
            th\<lparr> th_timeout := Timeout_offline (th_timeout th) \<rparr>, fx)
      else (Inr (), th\<lparr> th_timeout := Timeout_reset (th_timeout th) \<rparr>, fx))"

text \<open>
  \<open>fetchState\<close> (lines 157-187). Its mutex is a plain \<open>Mutex\<close>: \<open>acquire\<close> waits as long as
  it takes and does not fail, so the wait of the call plays no part; the clock is read
  once the lock is held. A read answered with a status other than 200 is logged, whether
  or not there is a document already. \<open>commitState\<close> may throw, inside the \<open>try\<close>.
\<close>

definition fetchState ::
  "env \<Rightarrow> thermostat \<Rightarrow> (error + unit) \<times> thermostat \<times> effect list"
where
  "fetchState e th =
     (if state_fresh e th then
        (if isOffline (state_data (th_state th)) then (Inl ServiceCommunicationFailure, th, [])
         else (Inr (), th, []))
      else
        (case get_reply e of
           Rejected \<Rightarrow> (Inl TransportError, th, [DevicesGet])
         | Reply status device \<Rightarrow>
             if status = 200 then
               (case commitState (now_saved e) device (th_state th) of
                  (Inl err, st1, fx) \<Rightarrow> (Inl err, th\<lparr> th_state := st1 \<rparr>, DevicesGet # fx)
                | (Inr u, st1, fx) \<Rightarrow>
                    fetchState_released (th\<lparr> th_state := st1 \<rparr>) (DevicesGet # fx))
             else fetchState_released th [DevicesGet]))"

text \<open>\<open>handleCurrentTemperatureGet\<close> of that class (lines 352-356): the fetch, then the getter.\<close>

definition handleCurrentTemperatureGet_state ::
  "env \<Rightarrow> thermostat \<Rightarrow> (error + jsvalue) \<times> thermostat \<times> effect list"
where
  "handleCurrentTemperatureGet_state e th =
     (case fetchState e th of
        (Inl err, th1, fx) \<Rightarrow> (Inl err, th1, fx)
      | (Inr u, th1, fx) \<Rightarrow>
          (map_sum id Num (getCurrentTemperature_state (state_data (th_state th1))), th1, fx))"

text \<open>The states such an object can be in.\<close>

inductive reachable_thermostat :: "thermostat \<Rightarrow> bool" where
  reachable_thermostat_new: "reachable_thermostat (thermostat_new t0)"
| reachable_thermostat_fetch:
    "reachable_thermostat th \<Longrightarrow> fetchState e th = (r, th1, fx) \<Longrightarrow> reachable_thermostat th1"

section \<open>The refresh lock\<close>

text \<open>
  A mutex of the library async-mutex serves its callers in the order they arrive, and a
  refresh holds it from the moment it gets it until its remote read is answered. So the
  state of the lock is the time until which it is held by the calls that came before; a
  call that arrives at time \<open>t\<close> waits until then. A request is a call with its arrival
  time, the time its remote read takes if it makes one, and the answers of the cloud.
\<close>

record request =
  arrival :: int
  read_time :: int
  device_reply :: "Device reply"
  exec_reply :: "unit reply"

definition waiting :: "int \<Rightarrow> int \<Rightarrow> int" where
  "waiting held_until t = max 0 (held_until - t)"

text \<open>What the request meets when the lock is held until \<open>held_until\<close>: it waits, reads the
  clock when the wait is over, and a read is answered \<open>read_time\<close> later.\<close>

definition env_at :: "request \<Rightarrow> int \<Rightarrow> env" where
  "env_at q held_until =
     \<lparr> lock_wait = waiting held_until (arrival q),
       now = arrival q + waiting held_until (arrival q),
       get_reply = device_reply q,
       now_saved = arrival q + waiting held_until (arrival q) + read_time q,
       command_reply = exec_reply q \<rparr>"

text \<open>
  The api object with its lock, \<open>withTimeout(new Mutex(), 500, RESOURCE_BUSY)\<close>: a call
  whose wait exceeds the bound is rejected and leaves the lock as it is; a call that gets
  the lock releases it at once when it serves the cached entry, and when its read is
  answered otherwise.
\<close>

record api_object =
  api_fields :: api_state
  fetchMutex :: int

definition fetch_locked ::
  "request \<Rightarrow> api_object \<Rightarrow> (error + Characteristics option) \<times> api_object \<times> effect list"
where
  "fetch_locked q obj =
     (case fetch (env_at q (fetchMutex obj)) (api_fields obj) of
        (r, s1, fx) \<Rightarrow>
          (r,
           \<lparr> api_fields = s1,
             fetchMutex =
               (if fetchMutex_timeout < lock_wait (env_at q (fetchMutex obj)) then fetchMutex obj
                else if DevicesGet \<in> set fx then now_saved (env_at q (fetchMutex obj))
                else now (env_at q (fetchMutex obj))) \<rparr>,
           fx))"

text \<open>The earlier object with its lock, \<open>new Mutex()\<close>: every call gets the lock in the end.\<close>

record thermostat_object =
  th_fields :: thermostat
  th_fetchMutex :: int

definition fetchState_locked ::
  "request \<Rightarrow> thermostat_object \<Rightarrow> (error + unit) \<times> thermostat_object \<times> effect list"
where
  "fetchState_locked q obj =
     (case fetchState (env_at q (th_fetchMutex obj)) (th_fields obj) of
        (r, th1, fx) \<Rightarrow>
          (r,
           \<lparr> th_fields = th1,
             th_fetchMutex =
               (if DevicesGet \<in> set fx then now_saved (env_at q (th_fetchMutex obj))
                else now (env_at q (th_fetchMutex obj))) \<rparr>,
           fx))"

section \<open>Auxiliary notions and concrete inputs\<close>

text \<open>The four values the local target mode can take.\<close>

definition local_modes :: "jsvalue list" where
  "local_modes =
     [TargetHeatingCoolingState_OFF, TargetHeatingCoolingState_HEAT,
      TargetHeatingCoolingState_COOL, TargetHeatingCoolingState_AUTO]"

text \<open>The budget agrees with the cached entry, and the accessor wraps the cached traits:
  an invariant of the reachable states.\<close>

definition budget_matches :: "api_state \<Rightarrow> bool" where
  "budget_matches s =
     (timeout s = Timeout (if cache_offline s then seconds 30 else Timeout_cache)
      \<and> cache_characrestics s = map_option Characteristics (cache_traits s))"

text \<open>An api object holding an entry for \<open>tr\<close> stamped at \<open>stamp\<close>, with the nominal budget.\<close>

definition cached :: "Traits \<Rightarrow> int \<Rightarrow> api_state" where
  "cached tr stamp =
     \<lparr> timeout = Timeout_new, cache_traits = Some tr,
       cache_characrestics = Some (Characteristics tr), cache_timestamp = stamp \<rparr>"

text \<open>A call one second after the stamp 0 that gets the lock at once; a remote read, were
  there one, would be rejected.\<close>

definition quiet_env :: env where
  "quiet_env =
     \<lparr> lock_wait = 0, now = 1000, get_reply = Rejected, now_saved = 1000,
       command_reply = Reply 200 () \<rparr>"

text \<open>A call at time \<open>t\<close> that gets the lock at once and whose remote read, if made, is
  answered with \<open>status\<close> and \<open>device\<close>.\<close>

definition read_env :: "int \<Rightarrow> int \<Rightarrow> Device \<Rightarrow> env" where
  "read_env t status device =
     \<lparr> lock_wait = 0, now = t, get_reply = Reply status device, now_saved = t,
       command_reply = Reply 200 () \<rparr>"

text \<open>A call that would wait 501 ms for the lock.\<close>

definition busy_env :: env where
  "busy_env =
     \<lparr> lock_wait = 501, now = 1000, get_reply = Rejected, now_saved = 1000,
       command_reply = Reply 200 () \<rparr>"

text \<open>A device in range mode: heat 20, cool 25, ambient 21.\<close>

definition range_traits :: Traits where
  "range_traits =
     \<lparr> connectivity = Some ''ONLINE'', ecoMode = Some ''OFF'',
       currentTemperature = Some 21, hvacStatus = Some ''HEATING'',
       targetMode = Some ''HEATCOOL'',
       availableTargetModes = Some [''HEAT'', ''COOL'', ''HEATCOOL'', ''OFF''],
       displayUnit = Some ''CELSIUS'',
       temperatureSetpoint = Some \<lparr> heatCelsius = Some 20, coolCelsius = Some 25 \<rparr>,
       relativeHumidity = Some 40 \<rparr>"

text \<open>A device in manual eco mode.\<close>

definition eco_traits :: Traits where
  "eco_traits =
     \<lparr> connectivity = Some ''ONLINE'', ecoMode = Some ''MANUAL_ECO'',
       currentTemperature = Some 21, hvacStatus = Some ''OFF'', targetMode = Some ''HEAT'',
       availableTargetModes = Some [''HEAT'', ''COOL'', ''HEATCOOL'', ''OFF''],
       displayUnit = Some ''CELSIUS'',
       temperatureSetpoint = Some \<lparr> heatCelsius = Some 20, coolCelsius = None \<rparr>,
       relativeHumidity = Some 40 \<rparr>"

text \<open>A device whose ambient temperature is exactly 0 degrees Celsius.\<close>

definition freezing_traits :: Traits where
  "freezing_traits =
     \<lparr> connectivity = Some ''ONLINE'', ecoMode = Some ''OFF'',
       currentTemperature = Some 0, hvacStatus = Some ''HEATING'', targetMode = Some ''HEAT'',
       availableTargetModes = Some [''HEAT'', ''COOL'', ''HEATCOOL'', ''OFF''],
       displayUnit = Some ''CELSIUS'',
       temperatureSetpoint = Some \<lparr> heatCelsius = Some 20, coolCelsius = None \<rparr>,
       relativeHumidity = Some 40 \<rparr>"

text \<open>A device document: online, heating, ambient 22 halfway between heat 20 and cool 24.\<close>

definition tie_device :: Device where
  "tie_device =
     \<lparr> traits = Some
       \<lparr> Connectivity = Some \<lparr> conn_status = Some ''ONLINE'' \<rparr>,
         ThermostatEco = Some \<lparr> eco_mode = Some ''OFF'' \<rparr>,
         Temperature = Some \<lparr> ambientTemperatureCelsius = Some 22 \<rparr>,
         ThermostatHvac = Some \<lparr> hvac_status = Some ''HEATING'' \<rparr>,
         ThermostatMode = Some
           \<lparr> mode = Some ''HEATCOOL'',
             availableModes = Some [''HEAT'', ''COOL'', ''HEATCOOL'', ''OFF''] \<rparr>,
         Settings = Some \<lparr> temperatureScale = Some ''CELSIUS'' \<rparr>,
         ThermostatTemperatureSetpoint = Some \<lparr> heatCelsius = Some 20, coolCelsius = Some 24 \<rparr>,
         Humidity = Some \<lparr> ambientHumidityPercent = Some 40 \<rparr> \<rparr> \<rparr>"

text \<open>A device document that reports only that the device is offline.\<close>

definition offline_device :: Device where
  "offline_device =
     \<lparr> traits = Some
       \<lparr> Connectivity = Some \<lparr> conn_status = Some ''OFFLINE'' \<rparr>,
         ThermostatEco = None, Temperature = None, ThermostatHvac = None,
         ThermostatMode = None, Settings = None, ThermostatTemperatureSetpoint = None,
         Humidity = None \<rparr> \<rparr>"

text \<open>The api object after a read of \<open>offline_device\<close> at time 5: the entry is offline and
  the budget is the long one.\<close>

definition offline_state :: api_state where
  "offline_state =
     \<lparr> timeout = Timeout (seconds 30), cache_traits = Some (deviceToTraits offline_device),
       cache_characrestics = Some (Characteristics (deviceToTraits offline_device)),
       cache_timestamp = 5 \<rparr>"

text \<open>The budget of the earlier object agrees with its document: an invariant of its
  reachable states.\<close>

definition thermostat_budget_matches :: "thermostat \<Rightarrow> bool" where
  "thermostat_budget_matches th =
     (th_timeout th
        = Timeout (if isOffline (state_data (th_state th)) then seconds 30 else Timeout_cache))"

text \<open>The earlier object holding \<open>device\<close>, stamped at \<open>stamp\<close>, with the budget \<open>budget\<close>.\<close>

definition holding :: "Device \<Rightarrow> int \<Rightarrow> int \<Rightarrow> thermostat" where
  "holding device stamp budget =
     \<lparr> th_timeout = Timeout budget,
       th_state = \<lparr> state_data = Some device, state_timestamp = stamp \<rparr> \<rparr>"


text \<open>A device document that reports the device offline, with its display unit.\<close>

definition offline_celsius_device :: Device where
  "offline_celsius_device =
     \<lparr> traits = Some
       \<lparr> Connectivity = Some \<lparr> conn_status = Some ''OFFLINE'' \<rparr>,
         ThermostatEco = None, Temperature = None, ThermostatHvac = None,
         ThermostatMode = None, Settings = Some \<lparr> temperatureScale = Some ''CELSIUS'' \<rparr>,
         ThermostatTemperatureSetpoint = None, Humidity = None \<rparr> \<rparr>"

text \<open>A snapshot whose cool setpoint is 0, with heat 20 and ambient 21, and one whose heat
  setpoint is 0, with cool 25.\<close>

definition zero_cool_traits :: Traits where
  "zero_cool_traits =
     range_traits\<lparr> temperatureSetpoint := Some \<lparr> heatCelsius = Some 20, coolCelsius = Some 0 \<rparr> \<rparr>"

definition zero_heat_traits :: Traits where
  "zero_heat_traits =
     range_traits\<lparr> temperatureSetpoint := Some \<lparr> heatCelsius = Some 0, coolCelsius = Some 25 \<rparr> \<rparr>"

text \<open>A snapshot whose eco mode is the empty string.\<close>

definition blank_eco_traits :: Traits where
  "blank_eco_traits = range_traits\<lparr> ecoMode := Some [] \<rparr>"

text \<open>A request that arrives at \<open>t\<close> and whose read, if made, takes \<open>d\<close> ms and is answered
  with \<open>status\<close> and \<open>device\<close>.\<close>

definition read_request :: "int \<Rightarrow> int \<Rightarrow> int \<Rightarrow> Device \<Rightarrow> request" where
  "read_request t d status device =
     \<lparr> arrival = t, read_time = d, device_reply = Reply status device,
       exec_reply = Reply 200 () \<rparr>"

text \<open>A new api object and a new earlier object, their locks free.\<close>

definition api_object_new :: api_object where
  "api_object_new = \<lparr> api_fields = api_new 0, fetchMutex = 0 \<rparr>"

definition thermostat_object_new :: thermostat_object where
  "thermostat_object_new = \<lparr> th_fields = thermostat_new 0, th_fetchMutex = 0 \<rparr>"

text \<open>The api object while a read that began at time 10 and takes 800 ms is in flight, as
  it is once that read is answered: the entry stamped 810, the lock held until 810.\<close>

definition api_object_reading :: api_object where
  "api_object_reading =
     \<lparr> api_fields = cached (deviceToTraits tie_device) 810, fetchMutex = 810 \<rparr>"

section \<open>Basic facts\<close>

lemmas cache_simps = fetch_def fetchMutex_timeout_def cache_fresh_def cache_offline_def
  Timeout_get_def Timeout_new_def Timeout_cache_def seconds_def

lemmas getter_simps = get_def getEcoMode_def getCurrentTemperature_def getTargetMode_def
  getHvacStatus_def getAvailableTargetModes_def getDisplayUnit_def getTemperatureSetpoint_def
  getRelativeHumidity_def truthy_num_def truthy_str_def present_num_def num_or_undefined_def


lemmas hap_simps = TargetHeatingCoolingState_OFF_def TargetHeatingCoolingState_HEAT_def
  TargetHeatingCoolingState_COOL_def TargetHeatingCoolingState_AUTO_def
  CurrentHeatingCoolingState_OFF_def CurrentHeatingCoolingState_HEAT_def
  CurrentHeatingCoolingState_COOL_def TemperatureDisplayUnits_CELSIUS_def
  TemperatureDisplayUnits_FAHRENHEIT_def

text \<open>A handler whose fetch fails fails with the same error; otherwise it runs its body on
  the accessor the fetch returned.\<close>

lemma with_fetch_Inl:
  "fetch e s = (Inl err, s1, fx) \<Longrightarrow> with_fetch e s body = (Inl err, s1, fx)"
  by (simp add: with_fetch_def)

lemma with_fetch_Some:
  "fetch e s = (Inr (Some c), s1, fx) \<Longrightarrow>
   with_fetch e s body = (fst (body c), s1, fx @ snd (body c))"
  by (simp add: with_fetch_def split: prod.split)

text \<open>A fetch does at most one remote read and at most one notification, and no command.\<close>

lemma save_effects:
  "save stamp tr s = (s1, fx) \<Longrightarrow> fx = [] \<or> (\<exists>u. fx = [OnDisplayUnit u])"
  by (auto simp: save_def split: option.splits if_splits)

lemma fetch_effects:
  "fetch e s = (r, s1, fx) \<Longrightarrow>
   fx = [] \<or> fx = [DevicesGet] \<or> (\<exists>u. fx = [DevicesGet, OnDisplayUnit u])"
  by (auto simp: fetch_def fetch_released_def split: reply.splits prod.splits if_splits
      dest: save_effects)

lemma fetch_no_command:
  "fetch e s = (r, s1, fx) \<Longrightarrow> filter is_command fx = []"
  using fetch_effects[of e s r s1 fx] by (auto simp: is_command_def)

lemma save_cache:
  "save stamp tr s = (s1, fx) \<Longrightarrow>
   cache_traits s1 = Some tr \<and> cache_characrestics s1 = Some (Characteristics tr)
   \<and> timeout s1 = timeout s"
  by (auto simp: save_def)

text \<open>The concrete calls.\<close>

lemma fetch_quiet_cached:
  "connectivity tr \<noteq> Some ''OFFLINE'' \<Longrightarrow>
   fetch quiet_env (cached tr 0) = (Inr (Some (Characteristics tr)), cached tr 0, [])"
  by (simp add: cache_simps quiet_env_def cached_def)

lemma fetch_first_read:
  "fetch (read_env 5 200 tie_device) (api_new 0)
     = (Inr (Some (Characteristics (deviceToTraits tie_device))),
        cached (deviceToTraits tie_device) 5, [DevicesGet, OnDisplayUnit ''CELSIUS''])"
  by (simp add: cache_simps read_env_def api_new_def save_def fetch_released_def cached_def
      Timeout_reset_def deviceToTraits_def tie_device_def truthy_str_def)

lemma fetch_first_read_offline:
  "fetch (read_env 5 200 offline_device) (api_new 0)
     = (Inl ServiceCommunicationFailure, offline_state, [DevicesGet])"
  by (simp add: cache_simps read_env_def api_new_def save_def fetch_released_def
      offline_state_def Timeout_offline_def deviceToTraits_def offline_device_def)

lemma reachable_cached_tie: "reachable (cached (deviceToTraits tie_device) 5)"
  using reachable_fetch[OF reachable_new fetch_first_read] .

lemma reachable_offline_state: "reachable offline_state"
  using reachable_fetch[OF reachable_new fetch_first_read_offline] .

text \<open>The budget invariant.\<close>

lemma fetch_released_budget:
  "cache_characrestics s = map_option Characteristics (cache_traits s) \<Longrightarrow>
   fetch_released s fx = (r, s1, fx1) \<Longrightarrow> budget_matches s1"
  by (auto simp: fetch_released_def budget_matches_def cache_offline_def Timeout_offline_def
      Timeout_reset_def split: if_splits)

lemma fetch_budget:
  assumes "budget_matches s" and "fetch e s = (r, s1, fx)"
  shows "budget_matches s1"
proof (cases "fetchMutex_timeout < lock_wait e \<or> cache_fresh e s")
  case True
  with assms show ?thesis by (auto simp: fetch_def split: if_splits)
next
  case False
  show ?thesis
  proof (cases "get_reply e")
    case Rejected
    with False assms show ?thesis by (auto simp: fetch_def)
  next
    case (Reply status device)
    show ?thesis
    proof (cases "status = 200")
      case True
      obtain s2 fx2 where sv: "save (now_saved e) (deviceToTraits device) s = (s2, fx2)"
        by (cases "save (now_saved e) (deviceToTraits device) s")
      with False Reply True assms(2) have "fetch_released s2 (DevicesGet # fx2) = (r, s1, fx)"
        by (simp add: fetch_def)
      moreover from save_cache[OF sv]
      have "cache_characrestics s2 = map_option Characteristics (cache_traits s2)" by simp
      ultimately show ?thesis by (rule fetch_released_budget[rotated])
    next
      case ne: False
      show ?thesis
      proof (cases "cache_traits s = None")
        case True
        with False Reply ne assms show ?thesis by (simp add: fetch_def)
      next
        case nn: False
        with False Reply ne assms(2) have "fetch_released s [DevicesGet] = (r, s1, fx)"
          by (simp add: fetch_def)
        moreover from assms(1)
        have "cache_characrestics s = map_option Characteristics (cache_traits s)"
          by (simp add: budget_matches_def)
        ultimately show ?thesis by (rule fetch_released_budget[rotated])
      qed
    qed
  qed
qed

lemma reachable_budget: "reachable s \<Longrightarrow> budget_matches s"
proof (induction rule: reachable.induct)
  case (reachable_new t0)
  show ?case
    by (simp add: budget_matches_def api_new_def cache_offline_def Timeout_new_def)
next
  case (reachable_fetch s e r s1 fx)
  then show ?case by (blast intro: fetch_budget)
qed

lemma fetch_released_same:
  "budget_matches s \<Longrightarrow>
   fetch_released s fx =
     ((if cache_offline s then Inl ServiceCommunicationFailure else Inr (cache_characrestics s)),
      s, fx)"
  by (auto simp: fetch_released_def budget_matches_def Timeout_offline_def Timeout_reset_def)

text \<open>While the entry is offline and no read reports otherwise, a fetch fails and the entry
  stays offline; so does every get handler, and every sequence of them.\<close>

lemma fetch_stays_offline:
  assumes "cache_offline s" and "lock_wait e \<le> fetchMutex_timeout"
    and "cache_fresh e s \<or> unreachable_reply e"
  shows "fst (fetch e s) = Inl ServiceCommunicationFailure \<and> cache_offline (fst (snd (fetch e s)))"
proof (cases "cache_fresh e s")
  case True
  with assms show ?thesis by (simp add: fetch_def)
next
  case False
  with assms(3) have u: "unreachable_reply e" by simp
  from assms(1) have nn: "cache_traits s \<noteq> None"
    by (cases "cache_traits s") (auto simp: cache_offline_def)
  from u obtain status device where r: "get_reply e = Reply status device"
    and c: "status \<noteq> 200 \<or> connectivity (deviceToTraits device) = Some ''OFFLINE''"
    by (auto simp: unreachable_reply_def split: reply.splits)
  show ?thesis
  proof (cases "status = 200")
    case True
    with c have "connectivity (deviceToTraits device) = Some ''OFFLINE''" by simp
    with True r False assms(2) show ?thesis
      by (simp add: fetch_def save_def fetch_released_def cache_offline_def)
  next
    case ne: False
    with r False assms(1,2) nn show ?thesis
      by (simp add: fetch_def fetch_released_def cache_offline_def)
  qed
qed

lemma get_handler_fails:
  assumes "h \<in> set get_handlers" and "fst (fetch e s) = Inl err"
  shows "fst (h e s) = Inl err \<and> fst (snd (h e s)) = fst (snd (fetch e s))"
proof -
  obtain s1 fx where "fetch e s = (Inl err, s1, fx)"
    using assms(2) by (cases "fetch e s") auto
  then have "with_fetch e s body = (Inl err, s1, fx) \<and> fst (snd (fetch e s)) = s1"
    for body :: "Characteristics \<Rightarrow> (error + jsvalue) \<times> effect list"
    by (simp add: with_fetch_Inl)
  with assms(1) show ?thesis
    by (auto simp: get_handlers_def handleCurrentHeatingCoolingStateGet_def
        handleTargetHeatingCoolingStateGet_def handleCurrentTemperatureGet_def
        handleTargetTemperatureGet_def handleTemperatureDisplayUnitsGet_def
        handleCoolingThresholdTemperatureGet_def handleHeatingThresholdTemperatureGet_def
        handleEcoSwitchGet_def handleCurrentRelativeHumidityGet_def)
qed

lemma run_gets_stay_offline:
  "cache_offline s \<Longrightarrow>
   \<forall>call \<in> set calls. fst call \<in> set get_handlers
      \<and> lock_wait (snd call) \<le> fetchMutex_timeout \<and> unreachable_reply (snd call) \<Longrightarrow>
   (\<forall>r \<in> set (fst (run_gets calls s)). r = Inl ServiceCommunicationFailure)
   \<and> cache_offline (snd (run_gets calls s))"
proof (induction calls arbitrary: s)
  case Nil
  then show ?case by simp
next
  case (Cons call calls)
  from Cons.prems have h: "fst call \<in> set get_handlers"
    and l: "lock_wait (snd call) \<le> fetchMutex_timeout" and u: "unreachable_reply (snd call)"
    by auto
  from fetch_stays_offline[OF Cons.prems(1) l] u
  have f: "fst (fetch (snd call) s) = Inl ServiceCommunicationFailure"
    and o: "cache_offline (fst (snd (fetch (snd call) s)))" by auto
  from get_handler_fails[OF h f] o
  have r: "fst ((fst call) (snd call) s) = Inl ServiceCommunicationFailure"
    and o1: "cache_offline (fst (snd ((fst call) (snd call) s)))" by auto
  from Cons.IH[OF o1] Cons.prems(2)
  have ih: "(\<forall>r \<in> set (fst (run_gets calls (fst (snd ((fst call) (snd call) s))))).
               r = Inl ServiceCommunicationFailure)
            \<and> cache_offline (snd (run_gets calls (fst (snd ((fst call) (snd call) s)))))"
    by simp
  with r show ?case
    by (auto split: prod.splits)
qed


lemma round_half_even_near: "\<bar>n - of_int (round_half_even n)\<bar> \<le> 1 / 2"
  unfolding round_half_even_def by (auto simp: abs_if) linarith+

lemma exponent_up_bracket:
  "scale2 1 e \<le> x \<Longrightarrow> e \<le> 1023 \<Longrightarrow>
   scale2 1 (exponent_up x e) \<le> x
   \<and> (x < scale2 1 (exponent_up x e + 1) \<or> exponent_up x e = 1023)"
proof (induction x e rule: exponent_up.induct)
  case (1 x e)
  show ?case
  proof (cases "1023 \<le> e \<or> x < scale2 1 (e + 1)")
    case True
    with 1 show ?thesis by (auto simp: exponent_up.simps[of x e])
  next
    case False
    then have "scale2 1 (e + 1) \<le> x" "e + 1 \<le> 1023" by auto
    with 1(1)[OF False] False show ?thesis by (simp add: exponent_up.simps[of x e])
  qed
qed

lemma exponent_down_bracket:
  "x < scale2 1 (e + 1) \<Longrightarrow> - 1022 \<le> e \<Longrightarrow>
   x < scale2 1 (exponent_down x e + 1)
   \<and> (scale2 1 (exponent_down x e) \<le> x \<or> exponent_down x e = - 1022)"
proof (induction x e rule: exponent_down.induct)
  case (1 x e)
  show ?case
  proof (cases "e \<le> - 1022 \<or> scale2 1 e \<le> x")
    case True
    with 1 show ?thesis by (auto simp: exponent_down.simps[of x e])
  next
    case False
    then have "x < scale2 1 (e - 1 + 1)" "- 1022 \<le> e - 1" by auto
    with 1(1)[OF False] False show ?thesis by (simp add: exponent_down.simps[of x e])
  qed
qed

lemma binary64_exponent_bracket:
  assumes "0 < x"
  shows "(scale2 1 (binary64_exponent x) \<le> x \<or> binary64_exponent x = - 1022)
       \<and> (x < scale2 1 (binary64_exponent x + 1) \<or> binary64_exponent x = 1023)"
proof (cases "1 \<le> x")
  case True
  then have "scale2 1 0 \<le> x" by (simp add: scale2_def)
  from exponent_up_bracket[OF this] True show ?thesis
    by (auto simp: binary64_exponent_def)
next
  case False
  then have "x < scale2 1 (- 1 + 1)" by (simp add: scale2_def)
  from exponent_down_bracket[OF this] False show ?thesis
    by (auto simp: binary64_exponent_def)
qed




text \<open>The budget invariant of the earlier object.\<close>

lemma commitState_error:
  "commitState stamp res st = (Inl err, st1, fx) \<Longrightarrow> st1 = st"
  by (auto simp: commitState_def split: if_splits sum.splits prod.splits)

lemma fetchState_released_budget:
  "fetchState_released th fx = (r, th1, fx1) \<Longrightarrow> thermostat_budget_matches th1"
  by (auto simp: fetchState_released_def thermostat_budget_matches_def Timeout_offline_def
      Timeout_reset_def split: if_splits)

lemma fetchState_budget:
  assumes "thermostat_budget_matches th" and "fetchState e th = (r, th1, fx)"
  shows "thermostat_budget_matches th1"
proof (cases "state_fresh e th")
  case True
  with assms show ?thesis by (auto simp: fetchState_def split: if_splits)
next
  case False
  show ?thesis
  proof (cases "get_reply e")
    case Rejected
    with False assms show ?thesis by (auto simp: fetchState_def)
  next
    case (Reply status device)
    show ?thesis
    proof (cases "status = 200")
      case True
      obtain r2 st2 fx2 where c: "commitState (now_saved e) device (th_state th) = (r2, st2, fx2)"
        by (cases "commitState (now_saved e) device (th_state th)")
      show ?thesis
      proof (cases r2)
        case (Inl err)
        with c commitState_error[of "now_saved e" device "th_state th" err st2 fx2]
        have "st2 = th_state th" by simp
        with False Reply True c Inl assms show ?thesis by (auto simp: fetchState_def)
      next
        case (Inr u)
        with False Reply True c assms(2)
        have "fetchState_released (th\<lparr> th_state := st2 \<rparr>) (DevicesGet # fx2) = (r, th1, fx)"
          by (simp add: fetchState_def)
        then show ?thesis by (rule fetchState_released_budget)
      qed
    next
      case ne: False
      with False Reply assms(2) have "fetchState_released th [DevicesGet] = (r, th1, fx)"
        by (simp add: fetchState_def)
      then show ?thesis by (rule fetchState_released_budget)
    qed
  qed
qed

lemma reachable_thermostat_budget: "reachable_thermostat th \<Longrightarrow> thermostat_budget_matches th"
proof (induction rule: reachable_thermostat.induct)
  case (reachable_thermostat_new t0)
  show ?case
    by (simp add: thermostat_budget_matches_def thermostat_new_def isOffline_def Timeout_new_def)
next
  case (reachable_thermostat_fetch th e r th1 fx)
  then show ?case by (blast intro: fetchState_budget)
qed

lemma fetchState_released_same:
  "thermostat_budget_matches th \<Longrightarrow>
   fetchState_released th fx =
     ((if isOffline (state_data (th_state th)) then Inl ServiceCommunicationFailure else Inr ()),
      th, fx)"
  by (auto simp: fetchState_released_def thermostat_budget_matches_def Timeout_offline_def
      Timeout_reset_def)

text \<open>The concrete calls of the earlier object and of the objects with their locks.\<close>

lemmas lock_simps = fetch_locked_def fetchState_locked_def env_at_def waiting_def
  read_request_def

lemmas fetchState_simps = fetchState_def state_fresh_def fetchState_released_def
  commitState_def updateTempRanges_def getDisplayUnit_state_def truthy_str_def isOffline_def
  Timeout_reset_def Timeout_offline_def Timeout_get_def Timeout_new_def Timeout_cache_def
  seconds_def

lemma fetchState_first_read:
  "fetchState (read_env 5 200 tie_device) (thermostat_new 0)
     = (Inr (), holding tie_device 5 5000, [DevicesGet, UpdateTempRanges ''CELSIUS''])"
  by (simp add: fetchState_simps read_env_def thermostat_new_def holding_def tie_device_def)

lemma fetchState_first_read_offline:
  "fetchState (read_env 5 200 offline_celsius_device) (thermostat_new 0)
     = (Inl ServiceCommunicationFailure, holding offline_celsius_device 5 30000,
        [DevicesGet, UpdateTempRanges ''CELSIUS''])"
  by (simp add: fetchState_simps read_env_def thermostat_new_def holding_def
      offline_celsius_device_def)

lemma reachable_holding_offline: "reachable_thermostat (holding offline_celsius_device 5 30000)"
  using reachable_thermostat_fetch[OF reachable_thermostat_new fetchState_first_read_offline] .

lemma reachable_holding_tie: "reachable_thermostat (holding tie_device 5 5000)"
  using reachable_thermostat_fetch[OF reachable_thermostat_new fetchState_first_read] .

lemma first_read_locked:
  "fetch_locked (read_request 10 800 200 tie_device) api_object_new
     = (Inr (Some (Characteristics (deviceToTraits tie_device))), api_object_reading,
        [DevicesGet, OnDisplayUnit ''CELSIUS''])"
  by (simp add: lock_simps api_object_new_def api_object_reading_def cache_simps api_new_def
      save_def fetch_released_def cached_def Timeout_reset_def deviceToTraits_def tie_device_def
      truthy_str_def)

section \<open>The target temperature read\<close>




section \<open>Eco gating\<close>

text \<open>
  Claim C2. When the snapshot a set handler works on (the one its fetch returns) has
  ecoMode MANUAL_ECO, the target-mode set, the cooling-threshold set and the
  heating-threshold set each fail with NotAllowedInCurrentState, whatever the value, and
  no remote command is among their effects. The eco-switch set in that state issues the
  command ThermostatEco.SetMode and returns normally whenever the cloud client answers,
  with any status.
\<close>

theorem eco_gating:
  assumes "fetch e s = (Inr (Some c), s1, fx)"
    and "ecoMode (char_traits c) = Some ''MANUAL_ECO''"
  shows "handleTargetHeatingCoolingStateSet v e s = (Inl NotAllowedInCurrentState, s1, fx)
       \<and> handleCoolingThresholdTemperatureSet v e s = (Inl NotAllowedInCurrentState, s1, fx)
       \<and> handleHeatingThresholdTemperatureSet v e s = (Inl NotAllowedInCurrentState, s1, fx)
       \<and> filter is_command fx = []
       \<and> handleEcoSwitchSet w e s1 =
           ((if command_reply e = Rejected then Inl TransportError else Inr ()), s1,
            [ExecuteCommand ''sdm.devices.commands.ThermostatEco.SetMode''
               [(''mode'', Str (if truthy w then ''MANUAL_ECO'' else ''OFF''))]])"
proof -
  have eco: "getEcoMode c = Inr ''MANUAL_ECO''"
    using assms(2) by (simp add: getEcoMode_def get_def truthy_str_def)
  have 1: "handleTargetHeatingCoolingStateSet v e s = (Inl NotAllowedInCurrentState, s1, fx)"
    unfolding handleTargetHeatingCoolingStateSet_def
    by (simp add: with_fetch_Some[OF assms(1)] handleTargetHeatingCoolingStateSet_on_def eco)
  have 2: "handleCoolingThresholdTemperatureSet v e s = (Inl NotAllowedInCurrentState, s1, fx)"
    unfolding handleCoolingThresholdTemperatureSet_def
    by (simp add: with_fetch_Some[OF assms(1)] handleCoolingThresholdTemperatureSet_on_def eco)
  have 3: "handleHeatingThresholdTemperatureSet v e s = (Inl NotAllowedInCurrentState, s1, fx)"
    unfolding handleHeatingThresholdTemperatureSet_def
    by (simp add: with_fetch_Some[OF assms(1)] handleHeatingThresholdTemperatureSet_on_def eco)
  have 4: "filter is_command fx = []"
    using fetch_no_command[OF assms(1)] .
  have 5: "handleEcoSwitchSet w e s1 =
           ((if command_reply e = Rejected then Inl TransportError else Inr ()), s1,
            [ExecuteCommand ''sdm.devices.commands.ThermostatEco.SetMode''
               [(''mode'', Str (if truthy w then ''MANUAL_ECO'' else ''OFF''))]])"
    by (simp add: handleEcoSwitchSet_def executeCommand_def split: reply.split)
  from 1 2 3 4 5 show ?thesis by blast
qed

text \<open>The theorem on the cached eco-mode snapshot: setting HEAT is refused, switching eco
  off is sent.\<close>

theorem eco_gating_witness:
  "fetch quiet_env (cached eco_traits 0)
     = (Inr (Some (Characteristics eco_traits)), cached eco_traits 0, [])
   \<and> ecoMode eco_traits = Some ''MANUAL_ECO''
   \<and> handleTargetHeatingCoolingStateSet TargetHeatingCoolingState_HEAT quiet_env
       (cached eco_traits 0) = (Inl NotAllowedInCurrentState, cached eco_traits 0, [])
   \<and> handleCoolingThresholdTemperatureSet (Num 24) quiet_env (cached eco_traits 0)
       = (Inl NotAllowedInCurrentState, cached eco_traits 0, [])
   \<and> handleEcoSwitchSet (Bool False) quiet_env (cached eco_traits 0)
       = (Inr (), cached eco_traits 0,
          [ExecuteCommand ''sdm.devices.commands.ThermostatEco.SetMode''
             [(''mode'', Str ''OFF'')]])"
proof -
  have "connectivity eco_traits \<noteq> Some ''OFFLINE''" by (simp add: eco_traits_def)
  note f = fetch_quiet_cached[OF this]
  have m: "ecoMode (char_traits (Characteristics eco_traits)) = Some ''MANUAL_ECO''"
    by (simp add: eco_traits_def)
  from eco_gating[OF f m, of TargetHeatingCoolingState_HEAT "Bool False"]
    eco_gating[OF f m, of "Num 24" "Bool False"] f m
  show ?thesis by (simp add: quiet_env_def)
qed

section \<open>Backoff while the device is offline\<close>

text \<open>
  Claim C3. A refresh (the lock obtained, the entry stale or missing, the read answered
  with status 200) whose traits report connectivity OFFLINE leaves the budget at 30
  seconds and makes the fetch fail with ServiceCommunicationFailure; one whose traits
  report ONLINE (or any connectivity but OFFLINE) leaves the budget at the nominal 5
  seconds and returns the new accessor. While the cached entry is offline, a fetch that
  obtains the lock fails with ServiceCommunicationFailure and leaves the entry offline,
  as long as it serves the fresh entry or its read is answered with a status other than
  200 or with an OFFLINE document; so every get call that starts with a fetch, in any
  sequence of such calls, fails with ServiceCommunicationFailure, until a read reports
  the device ONLINE.
\<close>

theorem offline_backoff:
  "(lock_wait e \<le> fetchMutex_timeout \<and> \<not> cache_fresh e s \<and> get_reply e = Reply 200 device \<longrightarrow>
      (connectivity (deviceToTraits device) = Some ''OFFLINE'' \<longrightarrow>
         fst (fetch e s) = Inl ServiceCommunicationFailure
         \<and> Timeout_get (timeout (fst (snd (fetch e s)))) = seconds 30
         \<and> cache_offline (fst (snd (fetch e s))))
    \<and> (connectivity (deviceToTraits device) \<noteq> Some ''OFFLINE'' \<longrightarrow>
         fst (fetch e s) = Inr (Some (Characteristics (deviceToTraits device)))
         \<and> Timeout_get (timeout (fst (snd (fetch e s)))) = seconds 5
         \<and> \<not> cache_offline (fst (snd (fetch e s)))))
   \<and> (cache_offline s \<and> lock_wait e \<le> fetchMutex_timeout
        \<and> (cache_fresh e s \<or> unreachable_reply e) \<longrightarrow>
        fst (fetch e s) = Inl ServiceCommunicationFailure
        \<and> cache_offline (fst (snd (fetch e s))))
   \<and> (cache_offline s
        \<and> (\<forall>call \<in> set calls. fst call \<in> set get_handlers
              \<and> lock_wait (snd call) \<le> fetchMutex_timeout \<and> unreachable_reply (snd call)) \<longrightarrow>
        (\<forall>r \<in> set (fst (run_gets calls s)). r = Inl ServiceCommunicationFailure)
        \<and> cache_offline (snd (run_gets calls s)))"
proof -
  have 1: "fst (fetch e s) = Inl ServiceCommunicationFailure
         \<and> Timeout_get (timeout (fst (snd (fetch e s)))) = seconds 30
         \<and> cache_offline (fst (snd (fetch e s)))"
    if "lock_wait e \<le> fetchMutex_timeout" "\<not> cache_fresh e s" "get_reply e = Reply 200 device"
      "connectivity (deviceToTraits device) = Some ''OFFLINE''"
    using that
    by (simp add: fetch_def save_def fetch_released_def cache_offline_def Timeout_offline_def
        Timeout_get_def)
  have 2: "fst (fetch e s) = Inr (Some (Characteristics (deviceToTraits device)))
         \<and> Timeout_get (timeout (fst (snd (fetch e s)))) = seconds 5
         \<and> \<not> cache_offline (fst (snd (fetch e s)))"
    if "lock_wait e \<le> fetchMutex_timeout" "\<not> cache_fresh e s" "get_reply e = Reply 200 device"
      "connectivity (deviceToTraits device) \<noteq> Some ''OFFLINE''"
    using that
    by (simp add: fetch_def save_def fetch_released_def cache_offline_def Timeout_reset_def
        Timeout_get_def Timeout_cache_def)
  from 1 2 fetch_stays_offline[of s e] run_gets_stay_offline[of s calls]
  show ?thesis by blast
qed

text \<open>
  The theorem on a new object. The first read reports OFFLINE: the fetch fails and the
  budget is 30000 ms. From that state a fetch one second later fails without a read,
  though the cloud would report ONLINE; a current-temperature get one second later, an
  eco-switch get whose read is answered with status 503 and a target-temperature get
  whose read reports OFFLINE again all fail with ServiceCommunicationFailure; a fetch at
  time 40000 whose read reports ONLINE returns the accessor and resets the budget.
\<close>

theorem offline_backoff_witness:
  "fst (fetch (read_env 5 200 offline_device) (api_new 0)) = Inl ServiceCommunicationFailure
   \<and> Timeout_get (timeout (fst (snd (fetch (read_env 5 200 offline_device) (api_new 0)))))
       = 30000
   \<and> fst (snd (fetch (read_env 5 200 offline_device) (api_new 0))) = offline_state
   \<and> fst (fetch (read_env 1000 200 tie_device) offline_state)
       = Inl ServiceCommunicationFailure
   \<and> fst (run_gets
        [(handleCurrentTemperatureGet, read_env 1000 200 offline_device),
         (handleEcoSwitchGet, read_env 40000 503 tie_device),
         (handleTargetTemperatureGet, read_env 80000 200 offline_device)] offline_state)
       = [Inl ServiceCommunicationFailure, Inl ServiceCommunicationFailure,
          Inl ServiceCommunicationFailure]
   \<and> cache_offline (snd (run_gets
        [(handleCurrentTemperatureGet, read_env 1000 200 offline_device),
         (handleEcoSwitchGet, read_env 40000 503 tie_device),
         (handleTargetTemperatureGet, read_env 80000 200 offline_device)] offline_state))
   \<and> fst (fetch (read_env 40000 200 tie_device) offline_state)
       = Inr (Some (Characteristics (deviceToTraits tie_device)))
   \<and> Timeout_get (timeout (fst (snd (fetch (read_env 40000 200 tie_device) offline_state))))
       = 5000"
proof -
  have a: "fst (fetch (read_env 5 200 offline_device) (api_new 0)) = Inl ServiceCommunicationFailure
     \<and> Timeout_get (timeout (fst (snd (fetch (read_env 5 200 offline_device) (api_new 0)))))
         = 30000"
    using offline_backoff[where e = "read_env 5 200 offline_device" and s = "api_new 0"
        and device = offline_device and calls = "[]"]
    by (simp add: read_env_def api_new_def cache_simps deviceToTraits_def offline_device_def)
  have b: "fst (snd (fetch (read_env 5 200 offline_device) (api_new 0))) = offline_state"
    by (simp add: fetch_first_read_offline)
  have off: "cache_offline offline_state"
    by (simp add: cache_offline_def offline_state_def deviceToTraits_def offline_device_def)
  have c: "fst (fetch (read_env 40000 200 tie_device) offline_state)
       = Inr (Some (Characteristics (deviceToTraits tie_device)))
     \<and> Timeout_get (timeout (fst (snd (fetch (read_env 40000 200 tie_device) offline_state))))
       = 5000"
    using offline_backoff[where e = "read_env 40000 200 tie_device" and s = offline_state
        and device = tie_device and calls = "[]"]
    by (simp add: read_env_def offline_state_def cache_simps deviceToTraits_def tie_device_def)
  have h: "handleCurrentTemperatureGet \<in> set get_handlers"
    "handleEcoSwitchGet \<in> set get_handlers" "handleTargetTemperatureGet \<in> set get_handlers"
    by (simp_all add: get_handlers_def)
  have u: "unreachable_reply (read_env 1000 200 offline_device)"
    "unreachable_reply (read_env 40000 503 tie_device)"
    "unreachable_reply (read_env 80000 200 offline_device)"
    by (simp_all add: unreachable_reply_def read_env_def deviceToTraits_def offline_device_def)
  have l: "lock_wait (read_env t status device) \<le> fetchMutex_timeout" for t status device
    by (simp add: read_env_def fetchMutex_timeout_def)
  have fr: "cache_fresh (read_env 1000 200 tie_device) offline_state"
    by (simp add: cache_fresh_def read_env_def offline_state_def Timeout_get_def seconds_def)
  have d: "fst (fetch (read_env 1000 200 tie_device) offline_state)
       = Inl ServiceCommunicationFailure
     \<and> cache_offline (snd (run_gets
        [(handleCurrentTemperatureGet, read_env 1000 200 offline_device),
         (handleEcoSwitchGet, read_env 40000 503 tie_device),
         (handleTargetTemperatureGet, read_env 80000 200 offline_device)] offline_state))"
    using offline_backoff[where e = "read_env 1000 200 tie_device" and s = offline_state
        and calls = "[(handleCurrentTemperatureGet, read_env 1000 200 offline_device),
         (handleEcoSwitchGet, read_env 40000 503 tie_device),
         (handleTargetTemperatureGet, read_env 80000 200 offline_device)]"]
      off h u l fr
    by simp
  have g: "fst (run_gets
        [(handleCurrentTemperatureGet, read_env 1000 200 offline_device),
         (handleEcoSwitchGet, read_env 40000 503 tie_device),
         (handleTargetTemperatureGet, read_env 80000 200 offline_device)] offline_state)
       = [Inl ServiceCommunicationFailure, Inl ServiceCommunicationFailure,
          Inl ServiceCommunicationFailure]"
    by (simp add: handleCurrentTemperatureGet_def handleEcoSwitchGet_def
        handleTargetTemperatureGet_def with_fetch_def read_env_def offline_state_def
        cache_simps save_def fetch_released_def Timeout_offline_def deviceToTraits_def
        offline_device_def)
  from a b c d g show ?thesis by simp
qed

section \<open>A failed read\<close>

text \<open>
  Claim C4, as the code has it. Take a call that holds the lock, finds the entry stale or
  missing and whose read is answered with a status other than 200, in a state the object
  can reach. If there is a previous entry, the whole state, the entry and the budget, is
  what it was, and the call is served from that entry when the entry is not OFFLINE: it
  returns the accessor over the entry's traits (in the earlier class, \<open>fetchState\<close>
  returns and the handler reads the document it held); when the entry is OFFLINE the call
  fails with ServiceCommunicationFailure. The only fetch that changes the budget to the
  nominal value is one whose read was answered with status 200 by a document that is not
  OFFLINE. If there is no entry, \<open>fetch\<close> of \<open>GoogleNestThermostatApi\<close> fails with
  ServiceCommunicationFailure, whereas \<open>fetchState\<close> of the earlier class returns normally
  and the handler then fails with ResourceDoesNotExist at its getter.
\<close>

theorem read_failure_keeps_entry:
  "(reachable s \<and> lock_wait e \<le> fetchMutex_timeout \<and> \<not> cache_fresh e s
      \<and> get_reply e = Reply status device \<and> status \<noteq> 200 \<longrightarrow>
      (cache_traits s = None \<longrightarrow>
         fetch e s = (Inl ServiceCommunicationFailure, s, [DevicesGet]))
    \<and> (cache_traits s \<noteq> None \<longrightarrow>
         fetch e s =
           ((if cache_offline s then Inl ServiceCommunicationFailure
             else Inr (map_option Characteristics (cache_traits s))), s, [DevicesGet]))
    \<and> (\<forall>e1. timeout (fst (snd (fetch e1 s))) \<noteq> timeout s
           \<and> Timeout_get (timeout (fst (snd (fetch e1 s)))) = Timeout_cache \<longrightarrow>
           (\<exists>d. get_reply e1 = Reply 200 d
                \<and> connectivity (deviceToTraits d) \<noteq> Some ''OFFLINE''
                \<and> DevicesGet \<in> set (snd (snd (fetch e1 s))))))
   \<and> (reachable_thermostat th \<and> \<not> state_fresh e th
      \<and> get_reply e = Reply status device \<and> status \<noteq> 200 \<longrightarrow>
      fetchState e th =
        ((if isOffline (state_data (th_state th)) then Inl ServiceCommunicationFailure
          else Inr ()), th, [DevicesGet])
    \<and> handleCurrentTemperatureGet_state e th =
        ((if isOffline (state_data (th_state th)) then Inl ServiceCommunicationFailure
          else map_sum id Num (getCurrentTemperature_state (state_data (th_state th)))),
         th, [DevicesGet])
    \<and> (state_data (th_state th) = None \<longrightarrow>
         fetchState e th = (Inr (), th, [DevicesGet])
         \<and> handleCurrentTemperatureGet_state e th
             = (Inl ResourceDoesNotExist, th, [DevicesGet])))"
proof -
  have A: "(cache_traits s = None \<longrightarrow>
         fetch e s = (Inl ServiceCommunicationFailure, s, [DevicesGet]))
    \<and> (cache_traits s \<noteq> None \<longrightarrow>
         fetch e s =
           ((if cache_offline s then Inl ServiceCommunicationFailure
             else Inr (map_option Characteristics (cache_traits s))), s, [DevicesGet]))
    \<and> (\<forall>e1. timeout (fst (snd (fetch e1 s))) \<noteq> timeout s
           \<and> Timeout_get (timeout (fst (snd (fetch e1 s)))) = Timeout_cache \<longrightarrow>
           (\<exists>d. get_reply e1 = Reply 200 d
                \<and> connectivity (deviceToTraits d) \<noteq> Some ''OFFLINE''
                \<and> DevicesGet \<in> set (snd (snd (fetch e1 s)))))"
    if asm: "reachable s" "lock_wait e \<le> fetchMutex_timeout" "\<not> cache_fresh e s"
      "get_reply e = Reply status device" "status \<noteq> 200"
  proof -
    have b: "budget_matches s" using asm(1) by (rule reachable_budget)
    have 1: "cache_traits s = None \<longrightarrow>
              fetch e s = (Inl ServiceCommunicationFailure, s, [DevicesGet])"
      using asm by (simp add: fetch_def)
    have 2: "cache_traits s \<noteq> None \<longrightarrow>
              fetch e s =
                ((if cache_offline s then Inl ServiceCommunicationFailure
                  else Inr (map_option Characteristics (cache_traits s))), s, [DevicesGet])"
      using asm(2-5) fetch_released_same[OF b, of "[DevicesGet]"] b
      by (simp add: fetch_def budget_matches_def)
    have 3: "\<exists>d. get_reply e1 = Reply 200 d
                     \<and> connectivity (deviceToTraits d) \<noteq> Some ''OFFLINE''
                     \<and> DevicesGet \<in> set (snd (snd (fetch e1 s)))"
      if ch: "timeout (fst (snd (fetch e1 s))) \<noteq> timeout s"
        and nom: "Timeout_get (timeout (fst (snd (fetch e1 s)))) = Timeout_cache" for e1
    proof -
      have same: "fetch_released s [DevicesGet] =
         ((if cache_offline s then Inl ServiceCommunicationFailure
           else Inr (cache_characrestics s)), s, [DevicesGet])"
        by (rule fetch_released_same[OF b])
      from ch obtain d where r: "get_reply e1 = Reply 200 d"
        and nf: "\<not> fetchMutex_timeout < lock_wait e1" "\<not> cache_fresh e1 s"
        using same by (auto simp: fetch_def split: if_splits reply.splits)
      obtain s2 fx2 where sv: "save (now_saved e1) (deviceToTraits d) s = (s2, fx2)"
        by (cases "save (now_saved e1) (deviceToTraits d) s")
      have f: "fetch e1 s = fetch_released s2 (DevicesGet # fx2)"
        using r nf sv by (simp add: fetch_def)
      have "cache_traits s2 = Some (deviceToTraits d)" using save_cache[OF sv] by simp
      with nom f have "connectivity (deviceToTraits d) \<noteq> Some ''OFFLINE''"
        by (auto simp: fetch_released_def cache_offline_def Timeout_offline_def Timeout_get_def
            Timeout_cache_def seconds_def split: if_splits)
      moreover have "DevicesGet \<in> set (snd (snd (fetch e1 s)))"
        using f by (simp add: fetch_released_def)
      ultimately show ?thesis using r by blast
    qed
    from 1 2 3 show ?thesis by blast
  qed
  have B: "fetchState e th =
        ((if isOffline (state_data (th_state th)) then Inl ServiceCommunicationFailure
          else Inr ()), th, [DevicesGet])
    \<and> handleCurrentTemperatureGet_state e th =
        ((if isOffline (state_data (th_state th)) then Inl ServiceCommunicationFailure
          else map_sum id Num (getCurrentTemperature_state (state_data (th_state th)))),
         th, [DevicesGet])
    \<and> (state_data (th_state th) = None \<longrightarrow>
         fetchState e th = (Inr (), th, [DevicesGet])
         \<and> handleCurrentTemperatureGet_state e th
             = (Inl ResourceDoesNotExist, th, [DevicesGet]))"
    if asm: "reachable_thermostat th" "\<not> state_fresh e th"
      "get_reply e = Reply status device" "status \<noteq> 200"
  proof -
    have b: "thermostat_budget_matches th" using asm(1) by (rule reachable_thermostat_budget)
    have 1: "fetchState e th =
        ((if isOffline (state_data (th_state th)) then Inl ServiceCommunicationFailure
          else Inr ()), th, [DevicesGet])"
      using asm(2-4) fetchState_released_same[OF b, of "[DevicesGet]"]
      by (simp add: fetchState_def)
    then have 2: "handleCurrentTemperatureGet_state e th =
        ((if isOffline (state_data (th_state th)) then Inl ServiceCommunicationFailure
          else map_sum id Num (getCurrentTemperature_state (state_data (th_state th)))),
         th, [DevicesGet])"
      by (simp add: handleCurrentTemperatureGet_state_def)
    have 3: "state_data (th_state th) = None \<longrightarrow>
         fetchState e th = (Inr (), th, [DevicesGet])
         \<and> handleCurrentTemperatureGet_state e th
             = (Inl ResourceDoesNotExist, th, [DevicesGet])"
      using 1 2 by (simp add: isOffline_def getCurrentTemperature_state_def)
    from 1 2 3 show ?thesis by blast
  qed
  from A B show ?thesis by blast
qed

text \<open>
  The theorem on reachable states, each met by a read answered with status 503 at time
  99999. Of the api object: the new object fails, the object holding an online entry
  returns that entry's accessor and is unchanged, the object holding the offline entry
  fails and is unchanged; the budget of the offline state, 30000 ms, becomes the nominal
  5000 ms by a fetch whose read is answered with status 200 by an ONLINE document. Of the
  earlier object: holding an online document the current-temperature get reads 22 from
  it, holding an offline document it fails, and both are unchanged.
\<close>

theorem read_failure_keeps_entry_witness:
  "reachable (api_new 0) \<and> reachable (cached (deviceToTraits tie_device) 5)
   \<and> reachable offline_state
   \<and> fetch (read_env 99999 503 tie_device) (api_new 0)
       = (Inl ServiceCommunicationFailure, api_new 0, [DevicesGet])
   \<and> fetch (read_env 99999 503 tie_device) (cached (deviceToTraits tie_device) 5)
       = (Inr (Some (Characteristics (deviceToTraits tie_device))),
          cached (deviceToTraits tie_device) 5, [DevicesGet])
   \<and> fetch (read_env 99999 503 tie_device) offline_state
       = (Inl ServiceCommunicationFailure, offline_state, [DevicesGet])
   \<and> Timeout_get (timeout offline_state) = 30000
   \<and> Timeout_get (timeout (fst (snd (fetch (read_env 40000 200 tie_device) offline_state))))
       = 5000
   \<and> get_reply (read_env 40000 200 tie_device) = Reply 200 tie_device
   \<and> connectivity (deviceToTraits tie_device) = Some ''ONLINE''
   \<and> DevicesGet \<in> set (snd (snd (fetch (read_env 40000 200 tie_device) offline_state)))
   \<and> reachable_thermostat (holding tie_device 5 5000)
   \<and> handleCurrentTemperatureGet_state (read_env 99999 503 tie_device)
        (holding tie_device 5 5000)
       = (Inr (Num 22), holding tie_device 5 5000, [DevicesGet])
   \<and> reachable_thermostat (holding offline_celsius_device 5 30000)
   \<and> handleCurrentTemperatureGet_state (read_env 99999 503 tie_device)
        (holding offline_celsius_device 5 30000)
       = (Inl ServiceCommunicationFailure, holding offline_celsius_device 5 30000,
          [DevicesGet])"
proof -
  have hyp: "lock_wait (read_env 99999 503 tie_device) \<le> fetchMutex_timeout"
    "get_reply (read_env 99999 503 tie_device) = Reply 503 tie_device" "(503::int) \<noteq> 200"
    by (simp_all add: read_env_def fetchMutex_timeout_def)
  have st: "\<not> cache_fresh (read_env 99999 503 tie_device) (api_new 0)"
    "\<not> cache_fresh (read_env 99999 503 tie_device) (cached (deviceToTraits tie_device) 5)"
    "\<not> cache_fresh (read_env 99999 503 tie_device) offline_state"
    by (simp_all add: read_env_def api_new_def cached_def offline_state_def cache_simps)
  have 1: "fetch (read_env 99999 503 tie_device) (api_new 0)
       = (Inl ServiceCommunicationFailure, api_new 0, [DevicesGet])"
    using read_failure_keeps_entry[where s = "api_new 0"
        and e = "read_env 99999 503 tie_device" and status = 503 and device = tie_device]
      reachable_new[of 0] hyp st
    by (simp add: api_new_def)
  have 2: "fetch (read_env 99999 503 tie_device) (cached (deviceToTraits tie_device) 5)
       = (Inr (Some (Characteristics (deviceToTraits tie_device))),
          cached (deviceToTraits tie_device) 5, [DevicesGet])"
    using read_failure_keeps_entry[where s = "cached (deviceToTraits tie_device) 5"
        and e = "read_env 99999 503 tie_device" and status = 503 and device = tie_device]
      reachable_cached_tie hyp st
    by (simp add: cached_def cache_offline_def deviceToTraits_def tie_device_def)
  have 3: "fetch (read_env 99999 503 tie_device) offline_state
       = (Inl ServiceCommunicationFailure, offline_state, [DevicesGet])"
    using read_failure_keeps_entry[where s = offline_state
        and e = "read_env 99999 503 tie_device" and status = 503 and device = tie_device]
      reachable_offline_state hyp st
    by (simp add: offline_state_def cache_offline_def deviceToTraits_def offline_device_def)
  have 4: "fetch (read_env 40000 200 tie_device) offline_state
       = (Inr (Some (Characteristics (deviceToTraits tie_device))),
          cached (deviceToTraits tie_device) 40000, [DevicesGet, OnDisplayUnit ''CELSIUS''])"
    by (simp add: read_env_def offline_state_def cache_simps save_def fetch_released_def
        cached_def Timeout_reset_def deviceToTraits_def tie_device_def offline_device_def
        truthy_str_def)
  have 5: "Timeout_get (timeout offline_state) = 30000
     \<and> Timeout_get (timeout (fst (snd (fetch (read_env 40000 200 tie_device) offline_state))))
         = 5000"
    unfolding 4
    by (simp add: offline_state_def cached_def Timeout_get_def Timeout_new_def
        Timeout_cache_def seconds_def)
  have 6: "timeout (fst (snd (fetch (read_env 40000 200 tie_device) offline_state)))
       \<noteq> timeout offline_state"
    unfolding 4
    by (simp add: offline_state_def cached_def Timeout_new_def Timeout_cache_def seconds_def)
  have "\<exists>d. get_reply (read_env 40000 200 tie_device) = Reply 200 d
           \<and> connectivity (deviceToTraits d) \<noteq> Some ''OFFLINE''
           \<and> DevicesGet \<in> set (snd (snd (fetch (read_env 40000 200 tie_device) offline_state)))"
  proof -
    have tc: "Timeout_cache = 5000" by (simp add: Timeout_cache_def seconds_def)
    from read_failure_keeps_entry[where s = offline_state
        and e = "read_env 99999 503 tie_device" and status = 503 and device = tie_device]
      reachable_offline_state hyp st
    have "\<forall>e1. timeout (fst (snd (fetch e1 offline_state))) \<noteq> timeout offline_state
              \<and> Timeout_get (timeout (fst (snd (fetch e1 offline_state)))) = Timeout_cache \<longrightarrow>
              (\<exists>d. get_reply e1 = Reply 200 d
                   \<and> connectivity (deviceToTraits d) \<noteq> Some ''OFFLINE''
                   \<and> DevicesGet \<in> set (snd (snd (fetch e1 offline_state))))"
      by blast
    with 5 6 tc show ?thesis by metis
  qed
  then have 7: "DevicesGet
      \<in> set (snd (snd (fetch (read_env 40000 200 tie_device) offline_state)))"
    by blast
  have 8: "get_reply (read_env 40000 200 tie_device) = Reply 200 tie_device
     \<and> connectivity (deviceToTraits tie_device) = Some ''ONLINE''"
    by (simp add: read_env_def deviceToTraits_def tie_device_def)
  have sf: "\<not> state_fresh (read_env 99999 503 tie_device) (holding tie_device 5 5000)"
    "\<not> state_fresh (read_env 99999 503 tie_device) (holding offline_celsius_device 5 30000)"
    by (simp_all add: state_fresh_def read_env_def holding_def Timeout_get_def)
  have 9: "handleCurrentTemperatureGet_state (read_env 99999 503 tie_device)
        (holding tie_device 5 5000)
       = (Inr (Num 22), holding tie_device 5 5000, [DevicesGet])"
    using read_failure_keeps_entry[where th = "holding tie_device 5 5000"
        and e = "read_env 99999 503 tie_device" and status = 503 and device = tie_device]
      reachable_holding_tie hyp sf
    by (simp add: holding_def isOffline_def getCurrentTemperature_state_def truthy_num_def
        tie_device_def)
  have 10: "handleCurrentTemperatureGet_state (read_env 99999 503 tie_device)
        (holding offline_celsius_device 5 30000)
       = (Inl ServiceCommunicationFailure, holding offline_celsius_device 5 30000,
          [DevicesGet])"
    using read_failure_keeps_entry[where th = "holding offline_celsius_device 5 30000"
        and e = "read_env 99999 503 tie_device" and status = 503 and device = tie_device]
      reachable_holding_offline hyp sf
    by (simp add: holding_def isOffline_def offline_celsius_device_def)
  from 1 2 3 5 7 8 9 10 reachable_new[of 0] reachable_cached_tie reachable_offline_state
    reachable_holding_tie reachable_holding_offline
  show ?thesis by simp
qed

text \<open>
  Where the claim as first stated fails. A new object of the earlier class, with no
  document, whose first read is answered with status 503: \<open>fetchState\<close> returns normally
  and the current-temperature get fails with ResourceDoesNotExist, not with
  ServiceCommunicationFailure. And the api object holding the offline entry is not served
  from it: the fetch fails with ServiceCommunicationFailure.
\<close>

theorem read_failure_counterexample:
  "state_data (th_state (thermostat_new 0)) = None
   \<and> get_reply (read_env 99999 503 tie_device) = Reply 503 tie_device
   \<and> fetchState (read_env 99999 503 tie_device) (thermostat_new 0)
       = (Inr (), thermostat_new 0, [DevicesGet])
   \<and> handleCurrentTemperatureGet_state (read_env 99999 503 tie_device) (thermostat_new 0)
       = (Inl ResourceDoesNotExist, thermostat_new 0, [DevicesGet])
   \<and> fst (handleCurrentTemperatureGet_state (read_env 99999 503 tie_device) (thermostat_new 0))
       \<noteq> Inl ServiceCommunicationFailure
   \<and> cache_traits offline_state = Some (deviceToTraits offline_device)
   \<and> fetch (read_env 99999 503 tie_device) offline_state
       = (Inl ServiceCommunicationFailure, offline_state, [DevicesGet])"
proof -
  have 1: "fetchState (read_env 99999 503 tie_device) (thermostat_new 0)
       = (Inr (), thermostat_new 0, [DevicesGet])"
    by (simp add: fetchState_simps read_env_def thermostat_new_def)
  then have 2: "handleCurrentTemperatureGet_state (read_env 99999 503 tie_device)
        (thermostat_new 0) = (Inl ResourceDoesNotExist, thermostat_new 0, [DevicesGet])"
    by (simp add: handleCurrentTemperatureGet_state_def getCurrentTemperature_state_def
        thermostat_new_def)
  have 3: "fetch (read_env 99999 503 tie_device) offline_state
       = (Inl ServiceCommunicationFailure, offline_state, [DevicesGet])"
    by (simp add: read_env_def offline_state_def cache_simps fetch_released_def
        Timeout_offline_def deviceToTraits_def offline_device_def)
  from 1 2 3 show ?thesis
    by (simp add: thermostat_new_def read_env_def offline_state_def)
qed

section \<open>The bounded wait for the refresh lock\<close>

text \<open>
  Claim C5, as the code has it. The refresh lock of \<open>fetch\<close> of
  \<open>GoogleNestThermostatApi\<close> is acquired with a bound of 500 ms on the wait: a call that
  arrives while the lock is held for more than 500 ms to come fails with ResourceBusy,
  makes no remote read, sends no notification and leaves the object, its cache and its
  lock as they were; a call whose wait is within the bound does not fail with
  ResourceBusy. \<open>fetchState\<close> of the earlier class acquires a plain mutex: whatever the
  wait, the call never fails with ResourceBusy; it does what \<open>fetchState\<close> does once the
  lock is free.
\<close>

theorem fetch_lock_timeout:
  "fetchMutex_timeout = 500
   \<and> (fetchMutex_timeout < fetchMutex obj - arrival q \<longrightarrow>
        fetch_locked q obj = (Inl ResourceBusy, obj, []))
   \<and> (fetchMutex obj - arrival q \<le> fetchMutex_timeout \<longrightarrow>
        fst (fetch_locked q obj) \<noteq> Inl ResourceBusy)
   \<and> fst (fetchState_locked q tobj) \<noteq> Inl ResourceBusy
   \<and> fetchState_locked q tobj =
       (fst (fetchState (env_at q (th_fetchMutex tobj)) (th_fields tobj)),
        \<lparr> th_fields = fst (snd (fetchState (env_at q (th_fetchMutex tobj)) (th_fields tobj))),
          th_fetchMutex =
            (if DevicesGet \<in> set (snd (snd (fetchState (env_at q (th_fetchMutex tobj))
                                               (th_fields tobj))))
             then max (arrival q) (th_fetchMutex tobj) + read_time q
             else max (arrival q) (th_fetchMutex tobj)) \<rparr>,
        snd (snd (fetchState (env_at q (th_fetchMutex tobj)) (th_fields tobj))))"
proof -
  have 1: "fetch_locked q obj = (Inl ResourceBusy, obj, [])"
    if "fetchMutex_timeout < fetchMutex obj - arrival q"
  proof -
    have w: "fetchMutex_timeout < lock_wait (env_at q (fetchMutex obj))"
      using that by (simp add: env_at_def waiting_def)
    then have "fetch (env_at q (fetchMutex obj)) (api_fields obj)
        = (Inl ResourceBusy, api_fields obj, [])"
      by (simp add: fetch_def)
    with w show ?thesis by (simp add: fetch_locked_def)
  qed
  have nb: "fst (fetch e s) \<noteq> Inl ResourceBusy" if "lock_wait e \<le> fetchMutex_timeout" for e s
    using that
    by (auto simp: fetch_def fetch_released_def split: reply.splits prod.splits)
  have 2: "fst (fetch_locked q obj) \<noteq> Inl ResourceBusy"
    if "fetchMutex obj - arrival q \<le> fetchMutex_timeout"
  proof -
    have "lock_wait (env_at q (fetchMutex obj)) \<le> fetchMutex_timeout"
      using that by (simp add: env_at_def waiting_def fetchMutex_timeout_def)
    from nb[OF this, of "api_fields obj"] show ?thesis
      by (auto simp: fetch_locked_def split: prod.splits)
  qed
  have ns: "fst (fetchState e th) \<noteq> Inl ResourceBusy" for e th
    by (auto simp: fetchState_def fetchState_released_def commitState_def updateTempRanges_def
        getDisplayUnit_state_def split: reply.splits prod.splits sum.splits option.splits
        if_splits)
  have 3: "fst (fetchState_locked q tobj) \<noteq> Inl ResourceBusy"
    using ns[of "env_at q (th_fetchMutex tobj)" "th_fields tobj"]
    by (auto simp: fetchState_locked_def split: prod.splits)
  have 4: "fetchState_locked q tobj =
       (fst (fetchState (env_at q (th_fetchMutex tobj)) (th_fields tobj)),
        \<lparr> th_fields = fst (snd (fetchState (env_at q (th_fetchMutex tobj)) (th_fields tobj))),
          th_fetchMutex =
            (if DevicesGet \<in> set (snd (snd (fetchState (env_at q (th_fetchMutex tobj))
                                               (th_fields tobj))))
             then max (arrival q) (th_fetchMutex tobj) + read_time q
             else max (arrival q) (th_fetchMutex tobj)) \<rparr>,
        snd (snd (fetchState (env_at q (th_fetchMutex tobj)) (th_fields tobj))))"
    by (auto simp: fetchState_locked_def env_at_def waiting_def split: prod.splits)
  from 1 2 3 4 show ?thesis by (simp add: fetchMutex_timeout_def)
qed

text \<open>
  The theorem on three calls of one api object. The first arrives at time 10 and its read
  takes 800 ms. The second arrives at 100, would wait 710 ms and fails with ResourceBusy.
  The third arrives at 400, waits 410 ms and is served from the entry the first one
  saved, without a read.
\<close>

theorem fetch_lock_timeout_witness:
  "fetch_locked (read_request 10 800 200 tie_device) api_object_new
     = (Inr (Some (Characteristics (deviceToTraits tie_device))), api_object_reading,
        [DevicesGet, OnDisplayUnit ''CELSIUS''])
   \<and> fetchMutex_timeout < fetchMutex api_object_reading - arrival (read_request 100 800 200 tie_device)
   \<and> fetch_locked (read_request 100 800 200 tie_device) api_object_reading
       = (Inl ResourceBusy, api_object_reading, [])
   \<and> fetchMutex api_object_reading - arrival (read_request 400 800 200 tie_device)
       \<le> fetchMutex_timeout
   \<and> fetch_locked (read_request 400 800 200 tie_device) api_object_reading
       = (Inr (Some (Characteristics (deviceToTraits tie_device))), api_object_reading, [])"
proof -
  have a: "fetchMutex_timeout
      < fetchMutex api_object_reading - arrival (read_request 100 800 200 tie_device)"
    by (simp add: fetchMutex_timeout_def api_object_reading_def read_request_def)
  have b: "fetch_locked (read_request 100 800 200 tie_device) api_object_reading
       = (Inl ResourceBusy, api_object_reading, [])"
    using fetch_lock_timeout[of api_object_reading "read_request 100 800 200 tie_device"] a
    by blast
  have c: "fetchMutex api_object_reading - arrival (read_request 400 800 200 tie_device)
       \<le> fetchMutex_timeout"
    by (simp add: fetchMutex_timeout_def api_object_reading_def read_request_def)
  have d: "fetch_locked (read_request 400 800 200 tie_device) api_object_reading
       = (Inr (Some (Characteristics (deviceToTraits tie_device))), api_object_reading, [])"
    by (simp add: lock_simps api_object_reading_def cache_simps cached_def deviceToTraits_def
        tie_device_def)
  from first_read_locked a b c d show ?thesis by simp
qed

text \<open>
  Where the claim as first stated fails: a call of \<open>fetchState\<close> that finds the lock held
  for ten more minutes waits, then makes its remote read and commits the document.
\<close>

theorem fetch_lock_timeout_counterexample:
  "fetchMutex_timeout
     < th_fetchMutex (thermostat_object_new\<lparr> th_fetchMutex := 600000 \<rparr>)
       - arrival (read_request 0 800 200 tie_device)
   \<and> fetchState_locked (read_request 0 800 200 tie_device)
        (thermostat_object_new\<lparr> th_fetchMutex := 600000 \<rparr>)
     = (Inr (),
        \<lparr> th_fields = holding tie_device 600800 5000, th_fetchMutex = 600800 \<rparr>,
        [DevicesGet, UpdateTempRanges ''CELSIUS''])
   \<and> fst (fetchState_locked (read_request 0 800 200 tie_device)
        (thermostat_object_new\<lparr> th_fetchMutex := 600000 \<rparr>)) \<noteq> Inl ResourceBusy"
proof -
  have "fetchState_locked (read_request 0 800 200 tie_device)
        (thermostat_object_new\<lparr> th_fetchMutex := 600000 \<rparr>)
     = (Inr (),
        \<lparr> th_fields = holding tie_device 600800 5000, th_fetchMutex = 600800 \<rparr>,
        [DevicesGet, UpdateTempRanges ''CELSIUS''])"
    by (simp add: lock_simps thermostat_object_new_def thermostat_new_def fetchState_def
        state_fresh_def fetchState_released_def commitState_def updateTempRanges_def
        getDisplayUnit_state_def truthy_str_def isOffline_def holding_def Timeout_reset_def
        Timeout_cache_def seconds_def tie_device_def)
  then show ?thesis
    by (simp add: fetchMutex_timeout_def thermostat_object_new_def read_request_def)
qed

section \<open>The round trip of the target mode\<close>

text \<open>
  Claim C6. \<open>valueToMode\<close> maps AUTO to HEATCOOL, and for each local mode among OFF,
  HEAT, COOL and AUTO: when the snapshot's target mode is the remote mode
  \<open>valueToMode\<close> gives for it, the target-mode get returns that local mode.
\<close>

theorem mode_round_trip:
  "valueToMode TargetHeatingCoolingState_AUTO = ''HEATCOOL''
   \<and> (\<forall>v \<in> set local_modes.
        fetch e s = (Inr (Some c), s1, fx) \<and> targetMode (char_traits c) = Some (valueToMode v)
        \<longrightarrow> handleTargetHeatingCoolingStateGet e s = (Inr v, s1, fx))"
proof -
  have "handleTargetHeatingCoolingStateGet_on c = Inr v"
    if "v \<in> set local_modes" "targetMode (char_traits c) = Some (valueToMode v)" for v
    using that
    by (auto simp: local_modes_def handleTargetHeatingCoolingStateGet_on_def valueToMode_def
        hap_simps getTargetMode_def get_def truthy_str_def)
  then show ?thesis
    by (simp add: handleTargetHeatingCoolingStateGet_def with_fetch_Some valueToMode_def hap_simps)
qed

text \<open>The theorem for AUTO on the snapshot in range mode (target mode HEATCOOL).\<close>

theorem mode_round_trip_witness:
  "TargetHeatingCoolingState_AUTO \<in> set local_modes
   \<and> fetch quiet_env (cached range_traits 0)
       = (Inr (Some (Characteristics range_traits)), cached range_traits 0, [])
   \<and> targetMode range_traits = Some (valueToMode TargetHeatingCoolingState_AUTO)
   \<and> handleTargetHeatingCoolingStateGet quiet_env (cached range_traits 0)
       = (Inr TargetHeatingCoolingState_AUTO, cached range_traits 0, [])"
proof -
  have "connectivity range_traits \<noteq> Some ''OFFLINE''" by (simp add: range_traits_def)
  note f = fetch_quiet_cached[OF this]
  have m: "TargetHeatingCoolingState_AUTO \<in> set local_modes" by (simp add: local_modes_def)
  have t: "targetMode range_traits = Some (valueToMode TargetHeatingCoolingState_AUTO)"
    by (simp add: range_traits_def valueToMode_def hap_simps)
  from mode_round_trip[of quiet_env "cached range_traits 0" "Characteristics range_traits"
      "cached range_traits 0" "[]"] m f t
  show ?thesis by auto
qed

section \<open>The display-unit notification\<close>

text \<open>
  Claim C7. Among the effects of a fetch there is at most one display-unit notification;
  when there is one it is sent within the call, right after the remote read. No
  notification is sent when the display unit of the fetched document equals the display
  unit of the previous entry. The same holds of \<open>commitState\<close> of the earlier class, whose
  notification is the call of \<open>updateTempRanges\<close>.
\<close>

theorem display_unit_notification_once:
  "length (filter is_notification (snd (snd (fetch e s)))) \<le> 1
   \<and> (OnDisplayUnit u \<in> set (snd (snd (fetch e s))) \<longrightarrow>
        snd (snd (fetch e s)) = [DevicesGet, OnDisplayUnit u])
   \<and> (cache_traits s = Some old \<and> get_reply e = Reply status device
        \<and> displayUnit (deviceToTraits device) = displayUnit old \<longrightarrow>
        filter is_notification (snd (snd (fetch e s))) = [])
   \<and> length (filter is_notification (snd (snd (commitState stamp res st)))) \<le> 1
   \<and> (state_data st = Some old_device
        \<and> Option.bind (Option.bind (traits res) Settings) temperatureScale
            = Option.bind (Option.bind (traits old_device) Settings) temperatureScale \<longrightarrow>
        filter is_notification (snd (snd (commitState stamp res st))) = [])"
proof -
  obtain r s1 fx where f: "fetch e s = (r, s1, fx)" by (cases "fetch e s") auto
  from fetch_effects[OF f]
  have 1: "length (filter is_notification (snd (snd (fetch e s)))) \<le> 1"
    and 2: "OnDisplayUnit u \<in> set (snd (snd (fetch e s))) \<longrightarrow>
        snd (snd (fetch e s)) = [DevicesGet, OnDisplayUnit u]"
    using f by (auto simp: is_notification_def)
  have 3: "filter is_notification (snd (snd (fetch e s))) = []"
    if "cache_traits s = Some old" "get_reply e = Reply status device"
      "displayUnit (deviceToTraits device) = displayUnit old"
    using that
    by (simp add: fetch_def save_def fetch_released_def is_notification_def
        split: option.split)
  have u: "snd (updateTempRanges res) = []
      \<or> (\<exists>x. snd (updateTempRanges res) = [UpdateTempRanges x])"
    by (simp add: updateTempRanges_def split: sum.split)
  have 4: "length (filter is_notification (snd (snd (commitState stamp res st)))) \<le> 1"
    using u
    by (auto simp: commitState_def is_notification_def split: sum.split prod.split)
  have 5: "filter is_notification (snd (snd (commitState stamp res st))) = []"
    if "state_data st = Some old_device"
       "Option.bind (Option.bind (traits res) Settings) temperatureScale
            = Option.bind (Option.bind (traits old_device) Settings) temperatureScale"
    using that
    by (simp add: commitState_def getDisplayUnit_state_def split: sum.split option.split)
  from 1 2 3 4 5 show ?thesis by blast
qed

text \<open>
  The theorem at concrete inputs: the first read of a Celsius device notifies once, a
  later read of the same document does not notify, and neither does \<open>commitState\<close> when
  it commits the document it already holds.
\<close>

theorem display_unit_notification_once_witness:
  "snd (snd (fetch (read_env 5 200 tie_device) (api_new 0)))
     = [DevicesGet, OnDisplayUnit ''CELSIUS'']
   \<and> snd (snd (fetch (read_env 99999 200 tie_device) (cached (deviceToTraits tie_device) 5)))
     = [DevicesGet]
   \<and> snd (snd (commitState 99999 tie_device
        \<lparr> state_data = Some tie_device, state_timestamp = 5 \<rparr>)) = []"
proof -
  have m: "OnDisplayUnit ''CELSIUS'' \<in> set (snd (snd (fetch (read_env 5 200 tie_device) (api_new 0))))"
    by (simp add: fetch_first_read)
  have 1: "snd (snd (fetch (read_env 5 200 tie_device) (api_new 0)))
     = [DevicesGet, OnDisplayUnit ''CELSIUS'']"
    using display_unit_notification_once[where e = "read_env 5 200 tie_device"
        and s = "api_new 0" and u = "''CELSIUS''"] m
    by blast
  have 2: "snd (snd (fetch (read_env 99999 200 tie_device) (cached (deviceToTraits tie_device) 5)))
     = [DevicesGet]"
    by (simp add: cache_simps read_env_def save_def fetch_released_def cached_def
        deviceToTraits_def tie_device_def)
  have 3: "filter is_notification (snd (snd (commitState 99999 tie_device
        \<lparr> state_data = Some tie_device, state_timestamp = 5 \<rparr>))) = []"
    using display_unit_notification_once[where stamp = 99999 and res = tie_device
        and st = "\<lparr> state_data = Some tie_device, state_timestamp = 5 \<rparr>"
        and old_device = tie_device]
    by simp
  have 4: "snd (snd (commitState 99999 tie_device
        \<lparr> state_data = Some tie_device, state_timestamp = 5 \<rparr>)) = []"
    by (simp add: commitState_def getDisplayUnit_state_def truthy_str_def tie_device_def)
  from 1 2 3 4 show ?thesis by simp
qed

section \<open>Read-only characteristics\<close>

text \<open>
  Claim C8. For every value, and whatever the state and the surroundings, a write of the
  target temperature and a write of the display unit each fail with
  ReadOnlyCharacteristic; they leave the state as it is and have no effect, so no remote
  command is issued.
\<close>

theorem read_only_writes:
  "handleTargetTemperatureSet v e s = (Inl ReadOnlyCharacteristic, s, [])
   \<and> handleTemperatureDisplayUnitsSet v e s = (Inl ReadOnlyCharacteristic, s, [])"
  by (simp add: handleTargetTemperatureSet_def handleTemperatureDisplayUnitsSet_def)

section \<open>Falsy values are read as absent\<close>

text \<open>
  Claim C9. Every getter of the accessor raises ResourceDoesNotExist when its field is
  absent and also when the field holds a falsy value, the number 0 or the empty string,
  and returns the value otherwise (a list and a setpoint object are never falsy). So the
  current-temperature get fails with ResourceDoesNotExist on a snapshot whose ambient
  temperature is 0 degrees Celsius. A setpoint field equal to 0 is read as an absent one:
  with cool 0 or missing the cooling-threshold read returns the heat value, and the cool
  value otherwise; with heat 0 or missing the heating-threshold read returns the cool
  value, and the heat value otherwise; the target-temperature read returns the one
  setpoint that is neither missing nor 0. The getter of the earlier class fails on an
  ambient temperature of 0 in the same way.
\<close>

theorem falsy_field_is_absent:
  "getEcoMode c =
     (case ecoMode (char_traits c) of
        None \<Rightarrow> Inl ResourceDoesNotExist
      | Some x \<Rightarrow> if x = [] then Inl ResourceDoesNotExist else Inr x)
   \<and> getTargetMode c =
     (case targetMode (char_traits c) of
        None \<Rightarrow> Inl ResourceDoesNotExist
      | Some x \<Rightarrow> if x = [] then Inl ResourceDoesNotExist else Inr x)
   \<and> getHvacStatus c =
     (case hvacStatus (char_traits c) of
        None \<Rightarrow> Inl ResourceDoesNotExist
      | Some x \<Rightarrow> if x = [] then Inl ResourceDoesNotExist else Inr x)
   \<and> getDisplayUnit c =
     (case displayUnit (char_traits c) of
        None \<Rightarrow> Inl ResourceDoesNotExist
      | Some x \<Rightarrow> if x = [] then Inl ResourceDoesNotExist else Inr x)
   \<and> getCurrentTemperature c =
     (case currentTemperature (char_traits c) of
        None \<Rightarrow> Inl ResourceDoesNotExist
      | Some x \<Rightarrow> if x = 0 then Inl ResourceDoesNotExist else Inr x)
   \<and> getRelativeHumidity c =
     (case relativeHumidity (char_traits c) of
        None \<Rightarrow> Inl ResourceDoesNotExist
      | Some x \<Rightarrow> if x = 0 then Inl ResourceDoesNotExist else Inr x)
   \<and> getAvailableTargetModes c =
     (case availableTargetModes (char_traits c) of
        None \<Rightarrow> Inl ResourceDoesNotExist | Some x \<Rightarrow> Inr x)
   \<and> getTemperatureSetpoint c =
     (case temperatureSetpoint (char_traits c) of
        None \<Rightarrow> Inl ResourceDoesNotExist | Some x \<Rightarrow> Inr x)
   \<and> getCurrentTemperature_state d =
     (case Option.bind (Option.bind (Option.bind d traits) Temperature)
             ambientTemperatureCelsius of
        None \<Rightarrow> Inl ResourceDoesNotExist
      | Some x \<Rightarrow> if x = 0 then Inl ResourceDoesNotExist else Inr x)
   \<and> (fetch e s = (Inr (Some c), s1, fx) \<longrightarrow>
        (currentTemperature (char_traits c) = Some 0 \<longrightarrow>
           handleCurrentTemperatureGet e s = (Inl ResourceDoesNotExist, s1, fx))
      \<and> (temperatureSetpoint (char_traits c) = Some sp \<longrightarrow>
           ((coolCelsius sp = None \<or> coolCelsius sp = Some 0) \<and> heatCelsius sp = Some h \<longrightarrow>
              handleCoolingThresholdTemperatureGet e s = (Inr (Num h), s1, fx))
         \<and> ((coolCelsius sp = None \<or> coolCelsius sp = Some 0) \<and> heatCelsius sp = None \<longrightarrow>
              handleCoolingThresholdTemperatureGet e s = (Inr Undefined, s1, fx))
         \<and> (coolCelsius sp = Some k \<and> k \<noteq> 0 \<longrightarrow>
              handleCoolingThresholdTemperatureGet e s = (Inr (Num k), s1, fx))
         \<and> ((heatCelsius sp = None \<or> heatCelsius sp = Some 0) \<and> coolCelsius sp = Some k \<longrightarrow>
              handleHeatingThresholdTemperatureGet e s = (Inr (Num k), s1, fx))
         \<and> ((heatCelsius sp = None \<or> heatCelsius sp = Some 0) \<and> coolCelsius sp = None \<longrightarrow>
              handleHeatingThresholdTemperatureGet e s = (Inr Undefined, s1, fx))
         \<and> (heatCelsius sp = Some h \<and> h \<noteq> 0 \<longrightarrow>
              handleHeatingThresholdTemperatureGet e s = (Inr (Num h), s1, fx))
         \<and> ((coolCelsius sp = None \<or> coolCelsius sp = Some 0)
              \<and> heatCelsius sp = Some h \<and> h \<noteq> 0 \<longrightarrow>
              handleTargetTemperatureGet e s = (Inr (Num h), s1, fx))
         \<and> ((heatCelsius sp = None \<or> heatCelsius sp = Some 0)
              \<and> coolCelsius sp = Some k \<and> k \<noteq> 0 \<longrightarrow>
              handleTargetTemperatureGet e s = (Inr (Num k), s1, fx))))"
proof -
  have G: "getEcoMode c =
     (case ecoMode (char_traits c) of
        None \<Rightarrow> Inl ResourceDoesNotExist
      | Some x \<Rightarrow> if x = [] then Inl ResourceDoesNotExist else Inr x)
   \<and> getTargetMode c =
     (case targetMode (char_traits c) of
        None \<Rightarrow> Inl ResourceDoesNotExist
      | Some x \<Rightarrow> if x = [] then Inl ResourceDoesNotExist else Inr x)
   \<and> getHvacStatus c =
     (case hvacStatus (char_traits c) of
        None \<Rightarrow> Inl ResourceDoesNotExist
      | Some x \<Rightarrow> if x = [] then Inl ResourceDoesNotExist else Inr x)
   \<and> getDisplayUnit c =
     (case displayUnit (char_traits c) of
        None \<Rightarrow> Inl ResourceDoesNotExist
      | Some x \<Rightarrow> if x = [] then Inl ResourceDoesNotExist else Inr x)
   \<and> getCurrentTemperature c =
     (case currentTemperature (char_traits c) of
        None \<Rightarrow> Inl ResourceDoesNotExist
      | Some x \<Rightarrow> if x = 0 then Inl ResourceDoesNotExist else Inr x)
   \<and> getRelativeHumidity c =
     (case relativeHumidity (char_traits c) of
        None \<Rightarrow> Inl ResourceDoesNotExist
      | Some x \<Rightarrow> if x = 0 then Inl ResourceDoesNotExist else Inr x)
   \<and> getAvailableTargetModes c =
     (case availableTargetModes (char_traits c) of
        None \<Rightarrow> Inl ResourceDoesNotExist | Some x \<Rightarrow> Inr x)
   \<and> getTemperatureSetpoint c =
     (case temperatureSetpoint (char_traits c) of
        None \<Rightarrow> Inl ResourceDoesNotExist | Some x \<Rightarrow> Inr x)
   \<and> getCurrentTemperature_state d =
     (case Option.bind (Option.bind (Option.bind d traits) Temperature)
             ambientTemperatureCelsius of
        None \<Rightarrow> Inl ResourceDoesNotExist
      | Some x \<Rightarrow> if x = 0 then Inl ResourceDoesNotExist else Inr x)"
    by (simp add: getter_simps getCurrentTemperature_state_def split: option.split)
  have H: "handleCurrentTemperatureGet e s = (handleCurrentTemperatureGet_on c, s1, fx)
      \<and> handleCoolingThresholdTemperatureGet e s
          = (handleCoolingThresholdTemperatureGet_on c, s1, fx)
      \<and> handleHeatingThresholdTemperatureGet e s
          = (handleHeatingThresholdTemperatureGet_on c, s1, fx)
      \<and> handleTargetTemperatureGet e s = (handleTargetTemperatureGet_on c, s1, fx)"
    if "fetch e s = (Inr (Some c), s1, fx)"
    using that
    by (simp add: handleCurrentTemperatureGet_def handleCoolingThresholdTemperatureGet_def
        handleHeatingThresholdTemperatureGet_def handleTargetTemperatureGet_def with_fetch_Some)
  have T: "currentTemperature (char_traits c) = Some 0 \<longrightarrow>
           handleCurrentTemperatureGet_on c = Inl ResourceDoesNotExist"
    by (simp add: handleCurrentTemperatureGet_on_def getter_simps)
  have S: "temperatureSetpoint (char_traits c) = Some sp \<longrightarrow>
           ((coolCelsius sp = None \<or> coolCelsius sp = Some 0) \<and> heatCelsius sp = Some h \<longrightarrow>
              handleCoolingThresholdTemperatureGet_on c = Inr (Num h))
         \<and> ((coolCelsius sp = None \<or> coolCelsius sp = Some 0) \<and> heatCelsius sp = None \<longrightarrow>
              handleCoolingThresholdTemperatureGet_on c = Inr Undefined)
         \<and> (coolCelsius sp = Some k \<and> k \<noteq> 0 \<longrightarrow>
              handleCoolingThresholdTemperatureGet_on c = Inr (Num k))
         \<and> ((heatCelsius sp = None \<or> heatCelsius sp = Some 0) \<and> coolCelsius sp = Some k \<longrightarrow>
              handleHeatingThresholdTemperatureGet_on c = Inr (Num k))
         \<and> ((heatCelsius sp = None \<or> heatCelsius sp = Some 0) \<and> coolCelsius sp = None \<longrightarrow>
              handleHeatingThresholdTemperatureGet_on c = Inr Undefined)
         \<and> (heatCelsius sp = Some h \<and> h \<noteq> 0 \<longrightarrow>
              handleHeatingThresholdTemperatureGet_on c = Inr (Num h))
         \<and> ((coolCelsius sp = None \<or> coolCelsius sp = Some 0)
              \<and> heatCelsius sp = Some h \<and> h \<noteq> 0 \<longrightarrow>
              handleTargetTemperatureGet_on c = Inr (Num h))
         \<and> ((heatCelsius sp = None \<or> heatCelsius sp = Some 0)
              \<and> coolCelsius sp = Some k \<and> k \<noteq> 0 \<longrightarrow>
              handleTargetTemperatureGet_on c = Inr (Num k))"
    by (auto simp: handleCoolingThresholdTemperatureGet_on_def
        handleHeatingThresholdTemperatureGet_on_def handleTargetTemperatureGet_on_def
        getter_simps)
  show ?thesis
  proof (cases "fetch e s = (Inr (Some c), s1, fx)")
    case True
    from H[OF True] T S G show ?thesis by simp
  next
    case False
    with G show ?thesis by simp
  qed
qed

text \<open>
  The theorem on cached snapshots. With ambient temperature 0 the current-temperature get
  fails. With heat 20 and cool 0 the cooling-threshold read and the target-temperature
  read both return 20; with heat 0 and cool 25 the heating-threshold read returns 25.
  With the empty string as eco mode the eco-switch get fails.
\<close>

theorem falsy_field_is_absent_witness:
  "currentTemperature freezing_traits = Some 0
   \<and> handleCurrentTemperatureGet quiet_env (cached freezing_traits 0)
       = (Inl ResourceDoesNotExist, cached freezing_traits 0, [])
   \<and> temperatureSetpoint zero_cool_traits
       = Some \<lparr> heatCelsius = Some 20, coolCelsius = Some 0 \<rparr>
   \<and> handleCoolingThresholdTemperatureGet quiet_env (cached zero_cool_traits 0)
       = (Inr (Num 20), cached zero_cool_traits 0, [])
   \<and> handleTargetTemperatureGet quiet_env (cached zero_cool_traits 0)
       = (Inr (Num 20), cached zero_cool_traits 0, [])
   \<and> temperatureSetpoint zero_heat_traits
       = Some \<lparr> heatCelsius = Some 0, coolCelsius = Some 25 \<rparr>
   \<and> handleHeatingThresholdTemperatureGet quiet_env (cached zero_heat_traits 0)
       = (Inr (Num 25), cached zero_heat_traits 0, [])
   \<and> ecoMode blank_eco_traits = Some []
   \<and> handleEcoSwitchGet quiet_env (cached blank_eco_traits 0)
       = (Inl ResourceDoesNotExist, cached blank_eco_traits 0, [])"
proof -
  have on: "connectivity freezing_traits \<noteq> Some ''OFFLINE''"
    "connectivity zero_cool_traits \<noteq> Some ''OFFLINE''"
    "connectivity zero_heat_traits \<noteq> Some ''OFFLINE''"
    "connectivity blank_eco_traits \<noteq> Some ''OFFLINE''"
    by (simp_all add: freezing_traits_def zero_cool_traits_def zero_heat_traits_def
        blank_eco_traits_def range_traits_def)
  have z: "currentTemperature freezing_traits = Some 0" by (simp add: freezing_traits_def)
  have zc: "temperatureSetpoint zero_cool_traits
       = Some \<lparr> heatCelsius = Some 20, coolCelsius = Some 0 \<rparr>"
    by (simp add: zero_cool_traits_def)
  have zh: "temperatureSetpoint zero_heat_traits
       = Some \<lparr> heatCelsius = Some 0, coolCelsius = Some 25 \<rparr>"
    by (simp add: zero_heat_traits_def)
  have be: "ecoMode blank_eco_traits = Some []" by (simp add: blank_eco_traits_def)
  have 1: "handleCurrentTemperatureGet quiet_env (cached freezing_traits 0)
       = (Inl ResourceDoesNotExist, cached freezing_traits 0, [])"
    using falsy_field_is_absent[where e = quiet_env and s = "cached freezing_traits 0"
      and c = "Characteristics freezing_traits" and ?s1.0 = "cached freezing_traits 0"
      and fx = "[]"] fetch_quiet_cached[OF on(1)] z
    by simp
  have 2: "handleCoolingThresholdTemperatureGet quiet_env (cached zero_cool_traits 0)
       = (Inr (Num 20), cached zero_cool_traits 0, [])
     \<and> handleTargetTemperatureGet quiet_env (cached zero_cool_traits 0)
       = (Inr (Num 20), cached zero_cool_traits 0, [])"
    using falsy_field_is_absent[where e = quiet_env and s = "cached zero_cool_traits 0"
      and c = "Characteristics zero_cool_traits" and ?s1.0 = "cached zero_cool_traits 0"
      and fx = "[]" and sp = "\<lparr> heatCelsius = Some 20, coolCelsius = Some 0 \<rparr>" and h = 20]
      fetch_quiet_cached[OF on(2)] zc
    by simp
  have 3: "handleHeatingThresholdTemperatureGet quiet_env (cached zero_heat_traits 0)
       = (Inr (Num 25), cached zero_heat_traits 0, [])"
    using falsy_field_is_absent[where e = quiet_env and s = "cached zero_heat_traits 0"
      and c = "Characteristics zero_heat_traits" and ?s1.0 = "cached zero_heat_traits 0"
      and fx = "[]" and sp = "\<lparr> heatCelsius = Some 0, coolCelsius = Some 25 \<rparr>" and k = 25]
      fetch_quiet_cached[OF on(3)] zh
    by simp
  have "getEcoMode (Characteristics blank_eco_traits) = Inl ResourceDoesNotExist"
    using falsy_field_is_absent[where c = "Characteristics blank_eco_traits"] be by simp
  then have 4: "handleEcoSwitchGet quiet_env (cached blank_eco_traits 0)
       = (Inl ResourceDoesNotExist, cached blank_eco_traits 0, [])"
    using fetch_quiet_cached[OF on(4)]
    by (simp add: handleEcoSwitchGet_def with_fetch_Some handleEcoSwitchGet_on_def)
  from 1 2 3 4 z zc zh be show ?thesis by simp
qed

section \<open>The eco switch is written without a fetch\<close>

text \<open>
  Claim C10. The eco-switch set does not fetch: for every value, state and surroundings
  its only effect is the command ThermostatEco.SetMode, with mode MANUAL_ECO for a truthy
  value and OFF otherwise; the state of the api object, an offline entry included, is
  neither read nor changed. It fails only when the cloud client rejects the call, so
  never with ServiceCommunicationFailure, ResourceBusy or ResourceDoesNotExist.
\<close>

theorem eco_switch_set_without_fetch:
  "handleEcoSwitchSet v e s =
     ((if command_reply e = Rejected then Inl TransportError else Inr ()), s,
      [ExecuteCommand ''sdm.devices.commands.ThermostatEco.SetMode''
         [(''mode'', Str (if truthy v then ''MANUAL_ECO'' else ''OFF''))]])
   \<and> fst (handleEcoSwitchSet v e s) \<noteq> Inl ServiceCommunicationFailure
   \<and> fst (handleEcoSwitchSet v e s) \<noteq> Inl ResourceBusy
   \<and> fst (handleEcoSwitchSet v e s) \<noteq> Inl ResourceDoesNotExist"
  by (simp add: handleEcoSwitchSet_def executeCommand_def split: reply.split)

end
